theory Spec2Isabelle
  imports Main
begin

section \<open>The console interpreter of Math Inspector\<close>

text \<open>
  A shallow embedding of \<^verbatim>\<open>mathinspector/console/interpreter.py\<close>: the class
  \<^verbatim>\<open>Interpreter\<close> with its methods \<^verbatim>\<open>setitem\<close>, \<^verbatim>\<open>synclocals\<close>, \<^verbatim>\<open>exec\<close>,
  \<^verbatim>\<open>push\<close>, \<^verbatim>\<open>write\<close> and \<^verbatim>\<open>showtraceback\<close>. The interpreter object, the two
  registries of the application, the calls made on the prompt's history and the text widget
  are one record that every method takes and returns. Python strings are \<^typ>\<open>string\<close>,
  a character standing for a code point below 256.
\<close>

subsection \<open>Characters and string helpers\<close>

definition BEL :: char where "BEL = CHR 0x07"
definition TAB :: char where "TAB = CHR 0x09"
definition NL :: char where "NL = CHR 0x0A"
definition CR :: char where "CR = CHR 0x0D"
definition DQ :: char where "DQ = CHR 0x22"

text \<open>The characters below 256 that Python's \<^verbatim>\<open>str.strip\<close> removes: the ASCII white
  space, the four separators from U+001C to U+001F, U+0085 and U+00A0.\<close>

definition is_space :: "char \<Rightarrow> bool" where
  "is_space c =
     (let n = (of_char c :: nat)
      in (9 \<le> n \<and> n \<le> 13) \<or> (28 \<le> n \<and> n \<le> 32) \<or> n = 133 \<or> n = 160)"

text \<open>The character class \<^verbatim>\<open>[A-Za-z]\<close>.\<close>

definition is_letter :: "char \<Rightarrow> bool" where
  "is_letter c = (let n = (of_char c :: nat) in (65 \<le> n \<and> n \<le> 90) \<or> (97 \<le> n \<and> n \<le> 122))"

definition rstrip :: "string \<Rightarrow> string" where
  "rstrip t = rev (dropWhile is_space (rev t))"

definition strip :: "string \<Rightarrow> string" where
  "strip t = dropWhile is_space (rstrip t)"

text \<open>\<^verbatim>\<open>r.rsplit("\r", 1)[1]\<close> for an \<^verbatim>\<open>r\<close> that contains a carriage return: the text
  after the last one.\<close>

definition after_last_cr :: "string \<Rightarrow> string" where
  "after_last_cr t = rev (takeWhile (\<lambda>c. c \<noteq> CR) (rev t))"

definition starts_with :: "string \<Rightarrow> string \<Rightarrow> bool" where
  "starts_with p t = (take (length p) t = p)"

definition ends_with :: "string \<Rightarrow> string \<Rightarrow> bool" where
  "ends_with p t = (drop (length t - length p) t = p \<and> length p \<le> length t)"

text \<open>\<^verbatim>\<open>re.match(RE_TRACEBACK, t)\<close> with
  \<^verbatim>\<open>RE_TRACEBACK = r"^()(Traceback \(most recent call last\))"\<close>: the text starts with
  the literal.\<close>

definition match_traceback :: "string \<Rightarrow> bool" where
  "match_traceback t = starts_with ''Traceback (most recent call last)'' t"

text \<open>\<^verbatim>\<open>re.match(RE_EXCEPTION, t)\<close> with \<^verbatim>\<open>RE_EXCEPTION = r"^()([A-Za-z]*Error:)"\<close>:
  a run of letters that ends in \<^verbatim>\<open>Error\<close>, then a colon. The word \<^verbatim>\<open>Error\<close> is made of
  letters and the colon is not one, so the run is the longest run of letters at the start.\<close>

definition match_exception :: "string \<Rightarrow> bool" where
  "match_exception t =
     (ends_with ''Error'' (takeWhile is_letter t) \<and> starts_with '':'' (dropWhile is_letter t))"

subsection \<open>Values, display tags, tracebacks\<close>

text \<open>
  The Python values the console tells apart: \<^verbatim>\<open>None\<close>, a string, a numpy array (its
  elements and its \<^verbatim>\<open>str()\<close> form), a module, an exception instance and any other
  object (each with its \<^verbatim>\<open>str()\<close> form).
\<close>

datatype pyval =
    PNone
  | PStr string
  | PArray "int list" string
  | PModule string
  | PExc string
  | PObj string

fun ismodule :: "pyval \<Rightarrow> bool" where
  "ismodule (PModule _) = True"
| "ismodule _ = False"

fun is_exception :: "pyval \<Rightarrow> bool" where
  "is_exception (PExc _) = True"
| "is_exception _ = False"

fun py_str :: "pyval \<Rightarrow> string" where
  "py_str PNone = ''None''"
| "py_str (PStr t) = t"
| "py_str (PArray _ t) = t"
| "py_str (PModule t) = t"
| "py_str (PExc t) = t"
| "py_str (PObj t) = t"

text \<open>\<^verbatim>\<open>ndarray.any()\<close>: some element is non-zero.\<close>

definition array_any :: "int list \<Rightarrow> bool" where
  "array_any xs = list_ex (\<lambda>x. x \<noteq> 0) xs"

text \<open>
  The \<^verbatim>\<open>tags\<close> argument of \<^verbatim>\<open>write\<close> is a tuple of tag names by default, and the
  string \<^verbatim>\<open>"red"\<close> when \<^verbatim>\<open>showtraceback\<close> calls it. Unpacking a string with
  \<^verbatim>\<open>*tags\<close> or \<^verbatim>\<open>list(tags)\<close> yields its characters; the text widget reads a string
  as the name of one tag.
\<close>

datatype tags = TagStr string | TagTuple "string list"

fun tag_iter :: "tags \<Rightarrow> string list" where
  "tag_iter (TagStr t) = map (\<lambda>c. [c]) t"
| "tag_iter (TagTuple ts) = ts"

fun tag_names :: "tags \<Rightarrow> string list" where
  "tag_names (TagStr t) = [t]"
| "tag_names (TagTuple ts) = ts"

record frame =
  f_file :: string
  f_line :: nat
  f_name :: string
  f_text :: string

text \<open>\<^verbatim>\<open>sys.exc_info()\<close>: the exception's type name, its \<^verbatim>\<open>str()\<close> and the traceback,
  outermost frame first (\<^verbatim>\<open>tb_next\<close> is the tail).\<close>

record exc_info =
  etype :: string
  evalue :: string
  tb :: "frame list"

subsection \<open>The standard library\<close>

text \<open>
  Two functions of the standard library are parameters of the model. The compiler
  (\<^verbatim>\<open>codeop.CommandCompiler\<close>, called by \<^verbatim>\<open>runsource\<close>) answers, for a source text, a
  file name and a mode: more input is needed; the text is invalid (it raised
  \<^verbatim>\<open>SyntaxError\<close>, \<^verbatim>\<open>OverflowError\<close> or \<^verbatim>\<open>ValueError\<close>, with the exception
  information below the handler of \<^verbatim>\<open>runsource\<close>); the compiled code; or any other
  exception, named, that the compiler raised (\<^verbatim>\<open>RecursionError\<close>, \<^verbatim>\<open>MemoryError\<close>).
  The formatter (\<^verbatim>\<open>traceback.format_exception\<close>) gives the lines of a traceback for a
  type, a value and the frames.

  Compiled code is described by what it does to the console: a sequence of bindings in
  the namespace and of calls to \<^verbatim>\<open>write\<close> (through \<^verbatim>\<open>sys.stdout\<close>), and how it ends:
  normally, with an exception (the exception information below the handler of
  \<^verbatim>\<open>runcode\<close>), or with \<^verbatim>\<open>SystemExit\<close>.
\<close>

datatype action = Bind string pyval | Emit "pyval list"

datatype ending = Done | Raise exc_info | Exit

record program =
  acts :: "action list"
  ending :: ending

datatype compiled = Incomplete | Invalid exc_info | Complete program | Raises string

type_synonym compiler = "string \<Rightarrow> string \<Rightarrow> string \<Rightarrow> compiled"

record stdlib =
  compile_command :: compiler
  format_exception :: "string \<Rightarrow> string \<Rightarrow> frame list \<Rightarrow> string list"

subsection \<open>State\<close>

text \<open>
  Calls to the collaborators that are not part of this file (the code parser's hooks, the
  prompt, the menu, the widget's highlighting, the compiler and the executor of the standard
  library) are recorded in call order, together with the assignments to the two registries,
  to the suppression flag and the namespace synchronisation. No operation reads the record.
\<close>

datatype pattern = RE_FILEPATH | RE_INPUT | RE_LINE | RE_IN

datatype event =
    EvFlag bool
  | EvSync
  | EvPreprocess string
  | EvPostprocess string
  | EvCompile string string string
  | EvExec string
  | EvModules string pyval
  | EvObjects string pyval
  | EvDelObjects string
  | EvPrompt
  | EvPromptMove
  | EvSee
  | EvHighlight pattern string
  | EvSetView string bool

text \<open>
  The class of \<^verbatim>\<open>prompt.history\<close> is not part of the source at hand, so the state keeps
  the calls that \<^verbatim>\<open>push\<close> makes on it, \<^verbatim>\<open>append(s)\<close> and \<^verbatim>\<open>extend(s)\<close>, in order.
\<close>

datatype hist_call = HAppend string | HExtend string

text \<open>A position in the text widget is a Tk index: a line, counted from 1, and a column.\<close>

type_synonym index = "nat \<times> nat"

record interp =
  locals_store :: "string \<rightharpoonup> pyval"
  objects :: "string \<rightharpoonup> pyval"
  modules :: "string \<rightharpoonup> pyval"
  buffer :: "string list"
  prevent_module_import :: bool
  cursor_position :: index
  display :: "(char \<times> string list) list"
  history :: "hist_call list"
  sys_last :: "exc_info option"
  trace :: "event list"

definition log :: "event \<Rightarrow> interp \<Rightarrow> interp" where
  "log ev s = s\<lparr>trace := trace s @ [ev]\<rparr>"

subsection \<open>The history\<close>

text \<open>
  Modelled from the spec: the history is an ordered log of submitted lines, and
  \<^verbatim>\<open>append(s)\<close> adds the entry \<open>s\<close>. What \<^verbatim>\<open>extend(s)\<close> adds for a line is a parameter:
  the line itself for a history that records lines (\<open>line_entry\<close>), the characters of the
  line for a plain list (\<open>char_entries\<close>).
\<close>

fun entries :: "(string \<Rightarrow> string list) \<Rightarrow> hist_call list \<Rightarrow> string list" where
  "entries ext [] = []"
| "entries ext (HAppend l # cs) = l # entries ext cs"
| "entries ext (HExtend l # cs) = ext l @ entries ext cs"

definition line_entry :: "string \<Rightarrow> string list" where
  "line_entry l = [l]"

definition char_entries :: "string \<Rightarrow> string list" where
  "char_entries l = map (\<lambda>c. [c]) l"

subsection \<open>The text widget\<close>

text \<open>
  Modelled from the spec: the widget class \<^verbatim>\<open>Text\<close> (\<^verbatim>\<open>mathinspector/widget\<close>), built
  on the text widget of Tk, is not part of the source at hand. The display buffer is the
  rendered text, one entry for each character with the tags given when it was inserted,
  without the newline that Tk keeps after the last character. \<^verbatim>\<open>insert("end", text, tags)\<close>
  puts the text before that last newline, so it appends. The highlighting passes add tags
  to text that is already there, so they are recorded as calls only.
\<close>

definition insert_end :: "string \<Rightarrow> string list \<Rightarrow> interp \<Rightarrow> interp" where
  "insert_end t tgs s = s\<lparr>display := display s @ map (\<lambda>c. (c, tgs)) t\<rparr>"

definition display_text :: "interp \<Rightarrow> string" where
  "display_text s = map fst (display s)"

text \<open>Where the line starts that comes \<open>k\<close> newlines after the start of \<open>t\<close>; behind the
  last line this is the end of the widget, one after the closing newline.\<close>

fun line_start :: "string \<Rightarrow> nat \<Rightarrow> nat" where
  "line_start t 0 = 0"
| "line_start t (Suc k) =
     (case dropWhile (\<lambda>c. c \<noteq> NL) t of
        [] \<Rightarrow> Suc (length t)
      | c # rest \<Rightarrow> Suc (length (takeWhile (\<lambda>c. c \<noteq> NL) t)) + line_start rest k)"

text \<open>The number of characters before an index; a column behind the end of its line is the
  end of the line.\<close>

definition offset_of :: "string \<Rightarrow> index \<Rightarrow> nat" where
  "offset_of t ix =
     (let st = line_start t (fst ix - 1)
      in if length t < st then st
         else st + min (snd ix) (length (takeWhile (\<lambda>c. c \<noteq> NL) (drop st t))))"

definition count_lines :: "string \<Rightarrow> nat" where
  "count_lines t = Suc (length (filter (\<lambda>c. c = NL) t))"

text \<open>\<^verbatim>\<open>index("end-1l linestart")\<close>: the start of the last line. The constructor
  records \<^verbatim>\<open>index("end")\<close> of the empty widget, the line after it.\<close>

definition last_line_start :: "interp \<Rightarrow> index" where
  "last_line_start s = (count_lines (display_text s), 0)"

text \<open>
  \<^verbatim>\<open>delete(index, "end")\<close>. Tk never deletes the closing newline: a deletion up to the end
  stops before it, and when the deletion starts at the beginning of a line other than the
  first, the newline before that line is deleted with it.
\<close>

definition delete_from :: "string \<Rightarrow> index \<Rightarrow> nat" where
  "delete_from t ix =
     (let p = offset_of t ix
      in if 0 < p \<and> (t @ [NL]) ! (p - 1) = NL then p - 1 else p)"

definition delete_to_end :: "index \<Rightarrow> interp \<Rightarrow> interp" where
  "delete_to_end ix s = s\<lparr>display := take (delete_from (display_text s) ix) (display s)\<rparr>"

definition highlight :: "pattern \<Rightarrow> string \<Rightarrow> interp \<Rightarrow> interp" where
  "highlight p tg s = log (EvHighlight p tg) s"

subsection \<open>The other collaborators\<close>

text \<open>
  Modelled from the spec: the code parser's hooks \<^verbatim>\<open>preprocess\<close> and \<^verbatim>\<open>postprocess\<close>,
  the prompt (\<^verbatim>\<open>prompt()\<close>, \<^verbatim>\<open>prompt.move()\<close>) and the menu's \<^verbatim>\<open>setview\<close> are not
  part of the source at hand. They take their arguments and return nothing to the
  interpreter.
\<close>

definition preprocess :: "string \<Rightarrow> interp \<Rightarrow> interp" where
  "preprocess source s = log (EvPreprocess source) s"

definition postprocess :: "string \<Rightarrow> interp \<Rightarrow> interp" where
  "postprocess source s = log (EvPostprocess source) s"

definition prompt :: "interp \<Rightarrow> interp" where
  "prompt s = log EvPrompt s"

definition prompt_move :: "interp \<Rightarrow> interp" where
  "prompt_move s = log EvPromptMove s"

definition see_end :: "interp \<Rightarrow> interp" where
  "see_end s = log EvSee s"

definition setview :: "string \<Rightarrow> bool \<Rightarrow> interp \<Rightarrow> interp" where
  "setview name b s = log (EvSetView name b) s"

definition history_append :: "string \<Rightarrow> interp \<Rightarrow> interp" where
  "history_append l s = s\<lparr>history := history s @ [HAppend l]\<rparr>"

definition history_extend :: "string \<Rightarrow> interp \<Rightarrow> interp" where
  "history_extend l s = s\<lparr>history := history s @ [HExtend l]\<rparr>"

text \<open>Assignments to the registries \<^verbatim>\<open>app.modules\<close> and \<^verbatim>\<open>app.objects\<close>.\<close>

definition set_modules :: "string \<Rightarrow> pyval \<Rightarrow> interp \<Rightarrow> interp" where
  "set_modules key v s = log (EvModules key v) (s\<lparr>modules := (modules s)(key \<mapsto> v)\<rparr>)"

definition set_objects :: "string \<Rightarrow> pyval \<Rightarrow> interp \<Rightarrow> interp" where
  "set_objects key v s = log (EvObjects key v) (s\<lparr>objects := (objects s)(key \<mapsto> v)\<rparr>)"

definition del_objects :: "string \<Rightarrow> interp \<Rightarrow> interp" where
  "del_objects key s = log (EvDelObjects key) (s\<lparr>objects := (objects s)(key := None)\<rparr>)"

definition set_flag :: "bool \<Rightarrow> interp \<Rightarrow> interp" where
  "set_flag b s = log (EvFlag b) (s\<lparr>prevent_module_import := b\<rparr>)"

subsection \<open>\<^verbatim>\<open>Interpreter.setitem\<close> and \<^verbatim>\<open>Interpreter.synclocals\<close>\<close>

definition setitem :: "string \<Rightarrow> pyval \<Rightarrow> interp \<Rightarrow> interp" where
  "setitem key v s =
     (if ismodule v then
        (if \<not> prevent_module_import s then set_modules key v s else s)
      else
        (if prevent_module_import s then
           (if length key = 1 \<or> take 2 key \<noteq> ''__'' then set_objects key v s else s)
         else set_objects key v s))"

definition synclocals :: "interp \<Rightarrow> interp" where
  "synclocals s = log EvSync (s\<lparr>locals_store := locals_store s ++ objects s ++ modules s\<rparr>)"

subsection \<open>\<^verbatim>\<open>Interpreter.write\<close>\<close>

text \<open>The method \<^verbatim>\<open>write\<close> is \<open>write_py\<close> here, \<^verbatim>\<open>write\<close> being a keyword of the
  proof language. Every call in the source leaves \<^verbatim>\<open>syntax_highlight\<close> at its default,
  which the method only hands on to the widget.\<close>

text \<open>The test \<^verbatim>\<open>args[0] in ("\a", "\n", " ", "", None)\<close>.\<close>

fun insignificant :: "pyval \<Rightarrow> bool" where
  "insignificant PNone = True"
| "insignificant (PStr t) = (t = [BEL] \<or> t = [NL] \<or> t = '' '' \<or> t = [])"
| "insignificant _ = False"

text \<open>The two early returns for a call with a single argument.\<close>

fun single_skipped :: "pyval \<Rightarrow> bool" where
  "single_skipped (PArray xs t) = (\<not> array_any xs)"
| "single_skipped v = insignificant v"

text \<open>The body of the loop \<^verbatim>\<open>for r in args\<close>; \<open>n\<close> is \<^verbatim>\<open>len(args)\<close>, and the tags go
  from one round to the next with the state.\<close>

definition collapse_cr :: "pyval \<Rightarrow> interp \<Rightarrow> pyval \<times> interp" where
  "collapse_cr r s =
     (case r of
        PStr t \<Rightarrow>
          (if CR \<in> set t
           then (PStr (after_last_cr t), insert_end [NL] [] (delete_to_end (cursor_position s) s))
           else (r, s))
      | _ \<Rightarrow> (r, s))"

definition red_tags :: "string \<Rightarrow> tags \<Rightarrow> tags" where
  "red_tags t tgs =
     (if match_traceback t \<or> match_exception t then TagTuple (''red'' # tag_iter tgs) else tgs)"

definition write_item :: "nat \<Rightarrow> pyval \<Rightarrow> interp \<times> tags \<Rightarrow> interp \<times> tags" where
  "write_item n r0 st =
     (let (s0, tags0) = st;
          (r, s1) = collapse_cr r0 s0;
          tags1 = red_tags (py_str r) tags0
      in if r = PNone then (s1, tags1)
         else
           (let tags2 = (if is_exception r then TagTuple (tag_iter tags1 @ [''red'']) else tags1);
                s2 = insert_end (py_str r) (tag_names tags2) s1;
                s3 = (if n > 1 then insert_end [TAB] [] s2 else s2)
            in (s3, tags2)))"

definition write_items :: "pyval list \<Rightarrow> tags \<Rightarrow> interp \<Rightarrow> interp" where
  "write_items args tgs s = fst (foldl (\<lambda>st r. write_item (length args) r st) (s, tgs) args)"

definition write_finish :: "interp \<Rightarrow> interp" where
  "write_finish s =
     (let s1 = highlight RE_IN ''green'' (highlight RE_LINE ''blue''
                 (highlight RE_INPUT ''purple'' (highlight RE_FILEPATH ''error_file'' s)));
          s2 = (if strip (display_text s1) \<noteq> [] then insert_end [NL] [] s1 else s1)
      in prompt_move (see_end s2))"

definition write_py :: "pyval list \<Rightarrow> tags \<Rightarrow> interp \<Rightarrow> interp" where
  "write_py args tgs s =
     (if prevent_module_import s then s
      else if length args = 1 \<and> single_skipped (hd args) then s
      else write_finish (write_items args tgs s))"

subsection \<open>\<^verbatim>\<open>Interpreter.showtraceback\<close>\<close>

text \<open>How a call ends: it returns a value, or an exception leaves it.\<close>

datatype exn = SystemExit | AttributeError | Uncaught string

datatype 'a result = Returned 'a | Propagated exn

text \<open>
  The argument \<open>ei\<close> is what \<^verbatim>\<open>sys.exc_info()\<close> returns. Without a traceback
  \<^verbatim>\<open>last_tb\<close> is \<^verbatim>\<open>None\<close> and \<^verbatim>\<open>last_tb.tb_next\<close> raises; the \<^verbatim>\<open>finally\<close> clause only
  clears two local variables.
\<close>

definition traceback_text :: "stdlib \<Rightarrow> exc_info \<Rightarrow> string" where
  "traceback_text lib ei =
     rstrip (concat (format_exception lib (etype ei) (evalue ei) (tl (tb ei))))"

definition showtraceback :: "stdlib \<Rightarrow> exc_info \<Rightarrow> interp \<Rightarrow> interp \<times> unit result" where
  "showtraceback lib ei s =
     (let s1 = s\<lparr>sys_last := Some ei\<rparr>
      in if tb ei = [] then (s1, Propagated AttributeError)
         else (setview ''console'' True
                 (write_py [PStr (traceback_text lib ei)] (TagStr ''red'') s1),
               Returned ()))"

subsection \<open>Compiling and running user code\<close>

text \<open>
  \<^verbatim>\<open>runsource\<close> and \<^verbatim>\<open>runcode\<close> are inherited from \<^verbatim>\<open>code.InteractiveInterpreter\<close>
  of the standard library. In a handler, \<^verbatim>\<open>sys.exc_info()\<close> has the handler's own frame
  before the frames of the exception. The file and line of these two frames are those of
  one release of the library.
\<close>

definition runsource_frame :: frame where
  "runsource_frame =
     \<lparr>f_file = ''code.py'', f_line = 63, f_name = ''runsource'',
      f_text = ''code = self.compile(source, filename, symbol)''\<rparr>"

definition runcode_frame :: frame where
  "runcode_frame =
     \<lparr>f_file = ''code.py'', f_line = 90, f_name = ''runcode'',
      f_text = ''exec(code, self.locals)''\<rparr>"

definition in_handler :: "frame \<Rightarrow> exc_info \<Rightarrow> exc_info" where
  "in_handler fr ei = ei\<lparr>tb := fr # tb ei\<rparr>"

text \<open>
  Modelled from the spec: the class \<^verbatim>\<open>vdict\<close> (\<^verbatim>\<open>mathinspector/util\<close>) is not part of
  the source at hand. Assigning to a key of the namespace stores the value and calls the
  \<^verbatim>\<open>setitem\<close> callback.
\<close>

definition vdict_setitem :: "string \<Rightarrow> pyval \<Rightarrow> interp \<Rightarrow> interp" where
  "vdict_setitem key v s = setitem key v (s\<lparr>locals_store := (locals_store s)(key \<mapsto> v)\<rparr>)"

fun run_action :: "action \<Rightarrow> interp \<Rightarrow> interp" where
  "run_action (Bind key v) s = vdict_setitem key v s"
| "run_action (Emit args) s = write_py args (TagTuple []) s"

text \<open>\<^verbatim>\<open>runcode\<close>: every exception of the code is caught and shown, except
  \<^verbatim>\<open>SystemExit\<close>, which is raised again.\<close>

definition runcode :: "stdlib \<Rightarrow> string \<Rightarrow> program \<Rightarrow> interp \<Rightarrow> interp \<times> unit result" where
  "runcode lib source p s =
     (let s1 = fold run_action (acts p) (log (EvExec source) s)
      in case ending p of
           Done \<Rightarrow> (s1, Returned ())
         | Exit \<Rightarrow> (s1, Propagated SystemExit)
         | Raise ei \<Rightarrow> showtraceback lib (in_handler runcode_frame ei) s1)"

text \<open>\<^verbatim>\<open>runsource\<close> returns \<^verbatim>\<open>True\<close> when more input is needed and \<^verbatim>\<open>False\<close>
  otherwise. For an invalid text it calls \<^verbatim>\<open>showsyntaxerror\<close>, which hands over to
  \<^verbatim>\<open>sys.excepthook\<close>, set to \<^verbatim>\<open>showtraceback\<close> by the constructor. An exception of
  the compiler other than the three it catches leaves \<^verbatim>\<open>runsource\<close>.\<close>

definition runsource ::
  "stdlib \<Rightarrow> string \<Rightarrow> string \<Rightarrow> string \<Rightarrow> interp \<Rightarrow> interp \<times> bool result" where
  "runsource lib source filename symbol s =
     (let s1 = log (EvCompile source filename symbol) s
      in case compile_command lib source filename symbol of
           Invalid ei \<Rightarrow>
             (case showtraceback lib (in_handler runsource_frame ei) s1 of
                (s2, Returned _) \<Rightarrow> (s2, Returned False)
              | (s2, Propagated x) \<Rightarrow> (s2, Propagated x))
         | Incomplete \<Rightarrow> (s1, Returned True)
         | Complete p \<Rightarrow>
             (case runcode lib source p s1 of
                (s2, Returned _) \<Rightarrow> (s2, Returned False)
              | (s2, Propagated x) \<Rightarrow> (s2, Propagated x))
         | Raises name \<Rightarrow> (s1, Propagated (Uncaught name)))"

subsection \<open>\<^verbatim>\<open>Interpreter.exec\<close>\<close>

definition exec :: "stdlib \<Rightarrow> string \<Rightarrow> string \<Rightarrow> interp \<Rightarrow> interp \<times> unit result" where
  "exec lib source filename s =
     (let s1 = set_flag True s;
          s2 = synclocals s1;
          s3 = preprocess source s2
      in case runsource lib source filename ''exec'' s3 of
           (s4, Propagated x) \<Rightarrow> (s4, Propagated x)
         | (s4, Returned _) \<Rightarrow> (set_flag False (postprocess source s4), Returned ()))"

subsection \<open>\<^verbatim>\<open>Interpreter.push\<close>\<close>

text \<open>The source text that \<^verbatim>\<open>push\<close> hands on, \<^verbatim>\<open>"".join(self.buffer + [s])\<close>.\<close>

definition accumulated :: "string list \<Rightarrow> string \<Rightarrow> string" where
  "accumulated buf line = concat (buf @ [line])"

text \<open>The test \<^verbatim>\<open>source[:3] == "del" and source[4:] in self.app.objects\<close>.\<close>

definition del_shortcut :: "string \<Rightarrow> interp \<Rightarrow> bool" where
  "del_shortcut source s = (take 3 source = ''del'' \<and> drop 4 source \<in> dom (objects s))"

definition push ::
  "stdlib \<Rightarrow> string \<Rightarrow> string \<Rightarrow> string \<Rightarrow> interp \<Rightarrow> interp \<times> unit result" where
  "push lib line filename symbol s =
     (let s1 = s\<lparr>cursor_position := last_line_start s\<rparr>;
          s2 = synclocals s1;
          source = accumulated (buffer s2) line;
          s3 = preprocess source s2
      in if del_shortcut source s3 then (prompt (del_objects (drop 4 source) s3), Returned ())
         else
           (let s4 = (if take 4 source = ''plot'' then prompt s3 else s3)
            in case runsource lib source filename symbol s4 of
                 (s5, Propagated x) \<Rightarrow> (s5, Propagated x)
               | (s5, Returned did_compile) \<Rightarrow>
                   (let s6 = (if did_compile
                              then history_append line (s5\<lparr>buffer := buffer s5 @ [line @ [NL]]\<rparr>)
                              else (history_extend line (postprocess source s5))\<lparr>buffer := []\<rparr>)
                    in (prompt s6, Returned ()))))"

text \<open>Submitting several lines one after the other; an exception that leaves one call
  ends the sequence.\<close>

fun push_lines ::
  "stdlib \<Rightarrow> string list \<Rightarrow> string \<Rightarrow> string \<Rightarrow> interp \<Rightarrow> interp \<times> unit result" where
  "push_lines lib [] filename symbol s = (s, Returned ())"
| "push_lines lib (l # ls) filename symbol s =
     (case push lib l filename symbol s of
        (s1, Propagated x) \<Rightarrow> (s1, Propagated x)
      | (s1, Returned _) \<Rightarrow> push_lines lib ls filename symbol s1)"

subsection \<open>Reading the record of calls\<close>

fun is_exec :: "event \<Rightarrow> bool" where
  "is_exec (EvExec _) = True"
| "is_exec _ = False"

text \<open>The steps of \<^verbatim>\<open>exec\<close>.\<close>

fun run_step :: "event \<Rightarrow> bool" where
  "run_step (EvFlag _) = True"
| "run_step EvSync = True"
| "run_step (EvPreprocess _) = True"
| "run_step (EvPostprocess _) = True"
| "run_step (EvCompile _ _ _) = True"
| "run_step (EvExec _) = True"
| "run_step _ = False"

text \<open>What user code can cause while it runs: assignments to the registries, the calls
  that \<^verbatim>\<open>write\<close> makes to the widget and the prompt, and the change of view after an
  exception.\<close>

fun output_event :: "event \<Rightarrow> bool" where
  "output_event (EvModules _ _) = True"
| "output_event (EvObjects _ _) = True"
| "output_event (EvHighlight _ _) = True"
| "output_event EvSee = True"
| "output_event EvPromptMove = True"
| "output_event (EvSetView _ _) = True"
| "output_event _ = False"

text \<open>What running user code leaves as it is: the input buffer, the history, the
  suppression flag and the recorded cursor position; the record of calls grows by output
  events only.\<close>

definition user_effect :: "interp \<Rightarrow> interp \<Rightarrow> bool" where
  "user_effect s s' \<longleftrightarrow>
     buffer s' = buffer s \<and> history s' = history s \<and>
     prevent_module_import s' = prevent_module_import s \<and>
     cursor_position s' = cursor_position s \<and>
     (\<exists>evs. trace s' = trace s @ evs \<and> list_all output_event evs)"

text \<open>An exception leaves \<^verbatim>\<open>runsource\<close>: the compiler raised one that is not caught, or
  the code ends with \<^verbatim>\<open>SystemExit\<close>.\<close>

fun escapes :: "compiled \<Rightarrow> bool" where
  "escapes (Complete p) = (ending p = Exit)"
| "escapes (Raises name) = True"
| "escapes _ = False"

text \<open>The steps of the compiler and the executor that \<^verbatim>\<open>runsource\<close> records for an
  answer of the compiler.\<close>

fun compile_steps :: "string \<Rightarrow> string \<Rightarrow> string \<Rightarrow> compiled \<Rightarrow> event list" where
  "compile_steps source filename symbol (Complete p) =
     [EvCompile source filename symbol, EvExec source]"
| "compile_steps source filename symbol _ = [EvCompile source filename symbol]"

text \<open>
  Each of the lines \<open>ls\<close>, submitted in turn from the buffer \<open>buf\<close>, is handed to the compiler
  (the deletion shortcut does not take it) and compiles as incomplete together with the lines
  before it. The object registry of \<open>s\<close> decides the shortcut.
\<close>

fun each_prefix_incomplete ::
  "stdlib \<Rightarrow> string \<Rightarrow> string \<Rightarrow> interp \<Rightarrow> string list \<Rightarrow> string list \<Rightarrow> bool" where
  "each_prefix_incomplete lib filename symbol s buf [] = True"
| "each_prefix_incomplete lib filename symbol s buf (l # ls) =
     (\<not> del_shortcut (accumulated buf l) s
      \<and> compile_command lib (accumulated buf l) filename symbol = Incomplete
      \<and> each_prefix_incomplete lib filename symbol s (buf @ [l @ [NL]]) ls)"

subsection \<open>A formatter\<close>

text \<open>
  \<^verbatim>\<open>traceback.format_exception\<close> as CPython 3.8 to 3.10 computes it for an exception that
  is not a \<^verbatim>\<open>SyntaxError\<close> and has no cause or context: the header when there is a
  traceback; an entry for each frame, with its source line when there is one, where a run of
  more than three frames at the same file, line and name is cut after the third and followed
  by a line that counts the rest; the line of the exception.
\<close>

definition digit_char :: "nat \<Rightarrow> char" where
  "digit_char d = ''0123456789'' ! d"

fun show_nat :: "nat \<Rightarrow> string" where
  "show_nat n = (if n < 10 then [digit_char n] else show_nat (n div 10) @ [digit_char (n mod 10)])"

declare show_nat.simps [simp del]

definition format_frame :: "frame \<Rightarrow> string" where
  "format_frame fr =
     ''  File '' @ [DQ] @ f_file fr @ [DQ] @ '', line '' @ show_nat (f_line fr) @ '', in '' @ f_name fr @ [NL]
     @ (if strip (f_text fr) = [] then [] else ''    '' @ strip (f_text fr) @ [NL])"

definition same_place :: "frame \<Rightarrow> frame \<Rightarrow> bool" where
  "same_place a b = (f_file a = f_file b \<and> f_line a = f_line b \<and> f_name a = f_name b)"

definition repeated_line :: "nat \<Rightarrow> string" where
  "repeated_line k =
     ''  [Previous line repeated '' @ show_nat k @ '' more time'' @ (if k > 1 then ''s'' else [])
     @ '']'' @ [NL]"

fun format_stack :: "frame option \<Rightarrow> nat \<Rightarrow> frame list \<Rightarrow> string list" where
  "format_stack prev count [] = (if count > 3 then [repeated_line (count - 3)] else [])"
| "format_stack prev count (fr # frs) =
     (let changed = (case prev of None \<Rightarrow> True | Some l \<Rightarrow> \<not> same_place l fr);
          flush = (if changed \<and> count > 3 then [repeated_line (count - 3)] else []);
          count1 = Suc (if changed then 0 else count)
      in flush @ (if count1 > 3 then [] else [format_frame fr])
         @ format_stack (Some fr) count1 frs)"

definition format_exception_only :: "string \<Rightarrow> string \<Rightarrow> string" where
  "format_exception_only ty v = (if v = [] then ty @ [NL] else ty @ '': '' @ v @ [NL])"

definition traceback_header :: string where
  "traceback_header = ''Traceback (most recent call last):'' @ [NL]"

definition format_exception_py :: "string \<Rightarrow> string \<Rightarrow> frame list \<Rightarrow> string list" where
  "format_exception_py ty v fs =
     (if fs = [] then [] else [traceback_header]) @ format_stack None 0 fs
     @ [format_exception_only ty v]"

text \<open>No run of more than three frames at the same file, line and name: the counter of
  \<open>format_stack\<close> stays within the cutoff.\<close>

fun runs_short :: "frame option \<Rightarrow> nat \<Rightarrow> frame list \<Rightarrow> bool" where
  "runs_short prev count [] = True"
| "runs_short prev count (fr # frs) =
     (let changed = (case prev of None \<Rightarrow> True | Some l \<Rightarrow> \<not> same_place l fr);
          count1 = Suc (if changed then 0 else count)
      in count1 \<le> 3 \<and> runs_short (Some fr) count1 frs)"

subsection \<open>The interpreter after construction, and example programs\<close>

text \<open>The library with a compiler that gives the same answer for every text.\<close>

definition python :: "compiled \<Rightarrow> stdlib" where
  "python r =
     \<lparr>compile_command = (\<lambda>source filename symbol. r), format_exception = format_exception_py\<rparr>"

definition assign_x :: program where
  "assign_x = \<lparr>acts = [Bind ''x'' (PObj ''1'')], ending = Done\<rparr>"

definition import_os :: program where
  "import_os = \<lparr>acts = [Bind ''os'' (PModule ''os'')], ending = Done\<rparr>"

definition no_op :: program where
  "no_op = \<lparr>acts = [], ending = Done\<rparr>"

definition exit_now :: program where
  "exit_now = \<lparr>acts = [], ending = Exit\<rparr>"

definition user_frame :: frame where
  "user_frame = \<lparr>f_file = ''<file>'', f_line = 1, f_name = ''<module>'', f_text = []\<rparr>"

definition zero_division :: exc_info where
  "zero_division =
     \<lparr>etype = ''ZeroDivisionError'', evalue = ''division by zero'', tb = [user_frame]\<rparr>"

definition divide_by_zero :: program where
  "divide_by_zero = \<lparr>acts = [], ending = Raise zero_division\<rparr>"

text \<open>
  A function that calls itself five times and then raises, defined at the console by the
  lines
  \<^verbatim>\<open>def f(n):\<close> /
  \<^verbatim>\<open>    if n == 0: raise ValueError("boom")\<close> /
  \<^verbatim>\<open>    f(n - 1)\<close>
  and called by the line \<^verbatim>\<open>f(5)\<close>, submitted after them. The traceback has seven user
  frames: the call at line 1 of the submitted statement, five calls at line 3 of the
  definition and the \<^verbatim>\<open>raise\<close> at its line 2. The console keeps no source lines for
  \<^verbatim>\<open><input>\<close>, so the entries have none.
\<close>

definition frame_at :: "nat \<Rightarrow> string \<Rightarrow> frame" where
  "frame_at n name = \<lparr>f_file = ''<input>'', f_line = n, f_name = name, f_text = []\<rparr>"

definition boom :: exc_info where
  "boom =
     \<lparr>etype = ''ValueError'', evalue = ''boom'',
      tb = frame_at 1 ''<module>'' # replicate 5 (frame_at 3 ''f'') @ [frame_at 2 ''f'']\<rparr>"

definition recursive_boom :: program where
  "recursive_boom = \<lparr>acts = [], ending = Raise boom\<rparr>"

text \<open>What the compiler raises for \<^verbatim>\<open>del x\<close> after \<^verbatim>\<open>if a:\<close>. Its traceback has,
  below the handler, the frames of the compiler inside the library, and for a syntax error
  the formatter of the library also gives the file, the line and a caret; both are left out
  here, and no property below is about the text rendered for it.\<close>

definition syntax_error :: exc_info where
  "syntax_error = \<lparr>etype = ''IndentationError'', evalue = ''expected an indented block'', tb = []\<rparr>"

definition init_state :: interp where
  "init_state =
     \<lparr>locals_store = [''__builtins__'' \<mapsto> PObj ''builtins'', ''app'' \<mapsto> PObj ''app'',
                      ''plot'' \<mapsto> PObj ''plot''],
      objects = Map.empty, modules = Map.empty, buffer = [], prevent_module_import = False,
      cursor_position = (2, 0), display = [], history = [], sys_last = None, trace = []\<rparr>"

text \<open>The interpreter with \<^verbatim>\<open>x\<close> in the object registry.\<close>

definition with_x :: interp where
  "with_x = init_state\<lparr>objects := [''x'' \<mapsto> PObj ''1'']\<rparr>"

text \<open>The same after the line \<^verbatim>\<open>if a:\<close> has been buffered.\<close>

definition accumulating :: interp where
  "accumulating = with_x\<lparr>buffer := [''if a:'' @ [NL]]\<rparr>"

text \<open>The interpreter showing the progress of a running command; the recorded cursor
  position is the start of the second line.\<close>

definition progress_state :: interp where
  "progress_state =
     init_state\<lparr>display := map (\<lambda>c. (c, [])) (''>>> run()'' @ [NL] @ ''10%''),
                 cursor_position := (2, 0)\<rparr>"

text \<open>A compiler for the lines \<^verbatim>\<open>if True:\<close> and \<^verbatim>\<open>    x = 1\<close>, closed by a blank line;
  the same block with \<^verbatim>\<open>    exit()\<close>; and the statement \<^verbatim>\<open>del(x\<close> with the closing
  bracket on the next line.\<close>

definition compile_if :: compiler where
  "compile_if source filename symbol =
     (if source = ''if True:'' \<or> source = ''if True:'' @ [NL] @ ''    x = 1''
         \<or> source = ''if True:'' @ [NL] @ ''    exit()'' \<or> source = ''del(x''
      then Incomplete
      else if source = ''if True:'' @ [NL] @ ''    x = 1'' @ [NL] then Complete assign_x
      else if source = ''if True:'' @ [NL] @ ''    exit()'' @ [NL] then Complete exit_now
      else Invalid syntax_error)"

definition python_if :: stdlib where
  "python_if = \<lparr>compile_command = compile_if, format_exception = format_exception_py\<rparr>"

text \<open>The interpreter after the lines \<^verbatim>\<open>if True:\<close> and \<^verbatim>\<open>    exit()\<close> have been
  buffered.\<close>

definition exit_block :: interp where
  "exit_block = init_state\<lparr>buffer := [''if True:'' @ [NL], ''    exit()'' @ [NL]]\<rparr>"

text \<open>An exception whose message has a carriage return, \<^verbatim>\<open>raise ValueError("a\rb")\<close>.\<close>

definition carriage_error :: exc_info where
  "carriage_error = \<lparr>etype = ''ValueError'', evalue = ''a'' @ [CR] @ ''b'', tb = [user_frame]\<rparr>"

text \<open>Code that writes \<^verbatim>\<open>"abc\rdef"\<close>.\<close>

definition print_progress :: program where
  "print_progress = \<lparr>acts = [Emit [PStr (''abc'' @ [CR] @ ''def'')]], ending = Done\<rparr>"

section \<open>Properties\<close>

lemmas char_defs = BEL_def TAB_def NL_def CR_def DQ_def

lemmas collab_defs = log_def preprocess_def postprocess_def prompt_def prompt_move_def
  see_end_def setview_def highlight_def set_modules_def set_objects_def del_objects_def
  set_flag_def insert_end_def delete_to_end_def history_append_def history_extend_def

subsection \<open>Facts about the string helpers\<close>

lemma dropWhile_all_iff: "(\<forall>x\<in>set (dropWhile P xs). P x) \<longleftrightarrow> (\<forall>x\<in>set xs. P x)"
  by (induction xs) auto

lemma strip_empty_iff: "strip t = [] \<longleftrightarrow> (\<forall>c\<in>set t. is_space c)"
  by (simp add: strip_def rstrip_def dropWhile_all_iff)

lemma rstrip_last: "rstrip t \<noteq> [] \<Longrightarrow> \<not> is_space (last (rstrip t))"
  unfolding rstrip_def using hd_dropWhile [of is_space "rev t"] by (simp add: last_rev)

lemma rstrip_nonblank: "rstrip t \<noteq> [] \<Longrightarrow> \<exists>c\<in>set (rstrip t). \<not> is_space c"
  using rstrip_last [of t] last_in_set [of "rstrip t"] by blast

lemma after_last_cr_split: "CR \<in> set t \<Longrightarrow> \<exists>pre. t = pre @ [CR] @ after_last_cr t"
proof -
  assume "CR \<in> set t"
  then have "CR \<in> set (rev t)" by simp
  then have ex: "\<exists>x\<in>set (rev t). \<not> (x \<noteq> CR)" by blast
  have "rev t = takeWhile (\<lambda>c. c \<noteq> CR) (rev t) @ dropWhile (\<lambda>c. c \<noteq> CR) (rev t)" by simp
  moreover have "dropWhile (\<lambda>c. c \<noteq> CR) (rev t) \<noteq> []" using ex by simp
  moreover have "hd (dropWhile (\<lambda>c. c \<noteq> CR) (rev t)) = CR"
    using hd_dropWhile [of "\<lambda>c. c \<noteq> CR" "rev t"] calculation(2) by simp
  ultimately obtain rest where "rev t = takeWhile (\<lambda>c. c \<noteq> CR) (rev t) @ CR # rest"
    by (metis list.collapse)
  then have "t = rev rest @ [CR] @ after_last_cr t"
    by (metis after_last_cr_def append.assoc append_Cons append_Nil rev.simps(2) rev_append rev_rev_ident)
  then show ?thesis by blast
qed

lemma after_last_cr_free: "CR \<notin> set (after_last_cr t)"
  unfolding after_last_cr_def using set_takeWhileD [of CR "\<lambda>c. c \<noteq> CR" "rev t"] by auto

lemma entries_append: "entries ext (a @ b) = entries ext a @ entries ext b"
  by (induction ext a rule: entries.induct) simp_all

subsection \<open>Positions in the widget\<close>

lemma offset_of_column_0: "offset_of t (l, 0) = line_start t (l - 1)"
  by (simp add: offset_of_def Let_def)

lemma line_start_newline:
  "k < length (filter (\<lambda>c. c = NL) t) \<Longrightarrow>
     0 < line_start t (Suc k) \<and> line_start t (Suc k) \<le> length t
     \<and> t ! (line_start t (Suc k) - 1) = NL"
proof (induction k arbitrary: t)
  case 0
  then have "\<exists>c\<in>set t. \<not> (c \<noteq> NL)" by (auto simp add: filter_empty_conv)
  then have ne: "dropWhile (\<lambda>c. c \<noteq> NL) t \<noteq> []" by simp
  then obtain c rest where d: "dropWhile (\<lambda>c. c \<noteq> NL) t = c # rest"
    by (cases "dropWhile (\<lambda>c. c \<noteq> NL) t") auto
  have c: "c = NL" using hd_dropWhile [OF ne] d by simp
  have t: "t = takeWhile (\<lambda>c. c \<noteq> NL) t @ NL # rest"
    using takeWhile_dropWhile_id [of "\<lambda>c. c \<noteq> NL" t] d c by simp
  have "length t = length (takeWhile (\<lambda>c. c \<noteq> NL) t) + Suc (length rest)"
    by (subst t) simp
  moreover have "t ! length (takeWhile (\<lambda>c. c \<noteq> NL) t) = NL"
    by (subst t) (simp add: nth_append)
  ultimately show ?case using d by simp
next
  case (Suc k)
  have "filter (\<lambda>c. c = NL) t \<noteq> []" using Suc.prems by auto
  then have "\<exists>c\<in>set t. \<not> (c \<noteq> NL)" by (simp add: filter_empty_conv)
  then have ne: "dropWhile (\<lambda>c. c \<noteq> NL) t \<noteq> []" by simp
  then obtain c rest where d: "dropWhile (\<lambda>c. c \<noteq> NL) t = c # rest"
    by (cases "dropWhile (\<lambda>c. c \<noteq> NL) t") auto
  have c: "c = NL" using hd_dropWhile [OF ne] d by simp
  let ?tw = "takeWhile (\<lambda>c. c \<noteq> NL) t"
  have t: "t = ?tw @ NL # rest"
    using takeWhile_dropWhile_id [of "\<lambda>c. c \<noteq> NL" t] d c by simp
  have no: "filter (\<lambda>c. c = NL) ?tw = []"
    using set_takeWhileD [of _ "\<lambda>c. c \<noteq> NL" t] by (auto simp add: filter_empty_conv)
  have "length (filter (\<lambda>c. c = NL) t) = Suc (length (filter (\<lambda>c. c = NL) rest))"
    by (subst t) (simp add: no)
  then have "k < length (filter (\<lambda>c. c = NL) rest)" using Suc.prems by simp
  then have ih: "0 < line_start rest (Suc k)" "line_start rest (Suc k) \<le> length rest"
      "rest ! (line_start rest (Suc k) - 1) = NL"
    using Suc.IH [of rest] by simp_all
  have ls: "line_start t (Suc (Suc k)) = Suc (length ?tw) + line_start rest (Suc k)"
    using d by simp
  have len: "length t = length ?tw + Suc (length rest)" by (subst t) simp
  have "t ! (Suc (length ?tw) + line_start rest (Suc k) - 1)
      = (?tw @ NL # rest) ! (length ?tw + Suc (line_start rest (Suc k) - 1))"
    using ih(1) t by simp
  also have "\<dots> = rest ! (line_start rest (Suc k) - 1)"
    by (simp only: nth_append_length_plus nth_Cons_Suc)
  finally have "t ! (line_start t (Suc (Suc k)) - 1) = NL" using ih(3) ls by simp
  then show ?case using ls len ih by simp
qed

text \<open>A deletion from the start of a later line takes the newline before it, which the
  newline inserted afterwards puts back.\<close>

lemma delete_from_later_line:
  assumes "Suc k < count_lines t"
  shows "take (delete_from t (Suc (Suc k), 0)) t @ [NL] = take (offset_of t (Suc (Suc k), 0)) t"
proof -
  let ?p = "line_start t (Suc k)"
  have k: "k < length (filter (\<lambda>c. c = NL) t)" using assms by (simp add: count_lines_def)
  have p: "0 < ?p" "?p \<le> length t" "t ! (?p - 1) = NL"
    using line_start_newline [OF k] by simp_all
  have "(t @ [NL]) ! (?p - 1) = NL" using p by (simp add: nth_append)
  then have df: "delete_from t (Suc (Suc k), 0) = ?p - 1"
    using p(1) by (simp add: delete_from_def offset_of_column_0 Let_def)
  have "take (Suc (?p - 1)) t = take (?p - 1) t @ [t ! (?p - 1)]"
    using p by (intro take_Suc_conv_app_nth) simp
  then show ?thesis using df p by (simp add: offset_of_column_0)
qed

lemma delete_from_first_line: "delete_from t (l, 0) = 0" if "l \<le> 1"
  using that by (simp add: delete_from_def offset_of_column_0 Let_def)

subsection \<open>What output and user code leave unchanged\<close>

lemma write_item_frame:
  "fst (write_item n r (s, tg)) = s\<lparr>display := display (fst (write_item n r (s, tg)))\<rparr>"
  by (simp add: write_item_def collapse_cr_def insert_end_def delete_to_end_def Let_def
      split: pyval.splits prod.splits)

lemma foldl_write_item_frame:
  "fst (foldl (\<lambda>st r. write_item n r st) (s, tg) args)
     = s\<lparr>display := display (fst (foldl (\<lambda>st r. write_item n r st) (s, tg) args))\<rparr>"
proof (induction args arbitrary: s tg)
  case Nil
  show ?case by simp
next
  case (Cons a args)
  obtain s1 tg1 where w: "write_item n a (s, tg) = (s1, tg1)" by (cases "write_item n a (s, tg)")
  have s1: "s1 = s\<lparr>display := display s1\<rparr>" using write_item_frame [of n a s tg] w by simp
  have "fst (foldl (\<lambda>st r. write_item n r st) (s1, tg1) args)
      = s1\<lparr>display := display (fst (foldl (\<lambda>st r. write_item n r st) (s1, tg1) args))\<rparr>"
    by (rule Cons.IH)
  also have "\<dots> = s\<lparr>display := display (fst (foldl (\<lambda>st r. write_item n r st) (s1, tg1) args))\<rparr>"
    by (subst s1) simp
  finally show ?case by (simp add: w)
qed

lemma write_items_frame: "write_items args tgs s = s\<lparr>display := display (write_items args tgs s)\<rparr>"
  unfolding write_items_def by (rule foldl_write_item_frame)

lemma write_finish_effect: "user_effect s (write_finish s)"
  by (simp add: user_effect_def write_finish_def collab_defs Let_def)

lemma user_effect_refl: "user_effect s s"
  by (simp add: user_effect_def)

lemma user_effect_trans: "user_effect a b \<Longrightarrow> user_effect b c \<Longrightarrow> user_effect a c"
  by (auto simp add: user_effect_def)

lemma write_items_effect: "user_effect s (write_items args tgs s)"
proof -
  have "user_effect s (s\<lparr>display := display (write_items args tgs s)\<rparr>)"
    by (simp add: user_effect_def)
  then show ?thesis using write_items_frame [of args tgs s] by simp
qed

lemma write_py_effect: "user_effect s (write_py args tgs s)"
proof -
  have "user_effect s (write_finish (write_items args tgs s))"
    using write_items_effect write_finish_effect by (rule user_effect_trans)
  then show ?thesis by (simp add: write_py_def user_effect_refl)
qed

lemma setitem_effect: "user_effect s (setitem key v s)"
  by (simp add: user_effect_def setitem_def set_modules_def set_objects_def log_def)

lemma run_action_effect: "user_effect s (run_action a s)"
proof (cases a)
  case (Bind key v)
  have "user_effect s (s\<lparr>locals_store := (locals_store s)(key \<mapsto> v)\<rparr>)" by (simp add: user_effect_def)
  then have "user_effect s (setitem key v (s\<lparr>locals_store := (locals_store s)(key \<mapsto> v)\<rparr>))"
    using setitem_effect by (rule user_effect_trans)
  then show ?thesis using Bind by (simp add: vdict_setitem_def)
next
  case (Emit args)
  then show ?thesis by (simp add: write_py_effect)
qed

lemma fold_run_action_effect: "user_effect s (fold run_action as s)"
proof (induction as arbitrary: s)
  case Nil
  show ?case by (simp add: user_effect_refl)
next
  case (Cons a as)
  have "user_effect s (fold run_action as (run_action a s))"
    using run_action_effect Cons.IH by (rule user_effect_trans)
  then show ?case by simp
qed

lemma showtraceback_effect:
  "tb ei \<noteq> [] \<Longrightarrow>
     user_effect s (fst (showtraceback lib ei s)) \<and> snd (showtraceback lib ei s) = Returned ()"
proof -
  assume t: "tb ei \<noteq> []"
  let ?w = "write_py [PStr (traceback_text lib ei)] (TagStr ''red'') (s\<lparr>sys_last := Some ei\<rparr>)"
  have a: "user_effect s (s\<lparr>sys_last := Some ei\<rparr>)" by (simp add: user_effect_def)
  have b: "user_effect (s\<lparr>sys_last := Some ei\<rparr>) ?w" by (rule write_py_effect)
  have c: "\<And>x. user_effect x (setview ''console'' True x)"
    by (simp add: user_effect_def setview_def log_def)
  have "user_effect s (setview ''console'' True ?w)"
    using a b c user_effect_trans by blast
  then show ?thesis using t by (simp add: showtraceback_def Let_def)
qed

lemma user_effect_filter:
  "user_effect s s' \<Longrightarrow> (\<And>e. output_event e \<Longrightarrow> \<not> P e) \<Longrightarrow> filter P (trace s') = filter P (trace s)"
  by (auto simp add: user_effect_def list_all_iff filter_empty_conv)

lemma output_not_run_step: "output_event e \<Longrightarrow> \<not> run_step e"
  by (cases e) simp_all

lemma output_not_exec: "output_event e \<Longrightarrow> \<not> is_exec e"
  by (cases e) simp_all

lemma user_effect_flag: "user_effect s s' \<Longrightarrow> prevent_module_import s' = prevent_module_import s"
  by (simp add: user_effect_def)

lemma user_effect_buffer: "user_effect s s' \<Longrightarrow> buffer s' = buffer s"
  by (simp add: user_effect_def)

lemma user_effect_history: "user_effect s s' \<Longrightarrow> history s' = history s"
  by (simp add: user_effect_def)

subsection \<open>Evaluation\<close>

lemmas run_defs = push_def exec_def runsource_def runcode_def showtraceback_def
  del_shortcut_def accumulated_def synclocals_def vdict_setitem_def setitem_def
  last_line_start_def count_lines_def display_text_def python_def in_handler_def Let_def

lemmas eval_defs = write_py_def write_items_def write_item_def write_finish_def collapse_cr_def
  red_tags_def match_traceback_def match_exception_def starts_with_def ends_with_def
  traceback_text_def format_exception_py_def format_exception_only_def format_frame_def
  traceback_header_def rstrip_def strip_def is_space_def is_letter_def after_last_cr_def
  runsource_frame_def runcode_frame_def same_place_def repeated_line_def show_nat.simps
  digit_char_def delete_from_def offset_of_def

subsection \<open>Running user code\<close>

lemma runcode_state: "user_effect (log (EvExec source) s) (fst (runcode lib source p s))"
proof (cases "ending p")
  case Done
  then show ?thesis by (simp add: runcode_def fold_run_action_effect)
next
  case (Raise ei)
  let ?s1 = "fold run_action (acts p) (log (EvExec source) s)"
  have a: "user_effect (log (EvExec source) s) ?s1" by (rule fold_run_action_effect)
  have t: "tb (in_handler runcode_frame ei) \<noteq> []" by (simp add: in_handler_def)
  have b: "user_effect ?s1 (fst (showtraceback lib (in_handler runcode_frame ei) ?s1))"
    using showtraceback_effect [OF t] by simp
  show ?thesis using Raise user_effect_trans [OF a b] by (simp add: runcode_def)
next
  case Exit
  then show ?thesis by (simp add: runcode_def fold_run_action_effect)
qed

lemma runcode_result:
  "snd (runcode lib source p s) = (if ending p = Exit then Propagated SystemExit else Returned ())"
proof (cases "ending p")
  case (Raise ei)
  have t: "tb (in_handler runcode_frame ei) \<noteq> []" by (simp add: in_handler_def)
  show ?thesis using Raise showtraceback_effect [OF t] by (simp add: runcode_def)
qed (simp_all add: runcode_def)

lemma runsource_state:
  "user_effect
     (s\<lparr>trace := trace s @ compile_steps source filename symbol
                             (compile_command lib source filename symbol)\<rparr>)
     (fst (runsource lib source filename symbol s))"
proof (cases "compile_command lib source filename symbol")
  case Incomplete
  then show ?thesis by (simp add: runsource_def log_def user_effect_refl)
next
  case (Invalid ei)
  let ?s1 = "log (EvCompile source filename symbol) s"
  have t: "tb (in_handler runsource_frame ei) \<noteq> []" by (simp add: in_handler_def)
  obtain s2 where "showtraceback lib (in_handler runsource_frame ei) ?s1 = (s2, Returned ())"
    using showtraceback_effect [OF t, of ?s1 lib]
    by (cases "showtraceback lib (in_handler runsource_frame ei) ?s1") simp
  then show ?thesis using Invalid showtraceback_effect [OF t, of ?s1 lib]
    by (simp add: runsource_def log_def)
next
  case (Complete p)
  let ?s1 = "log (EvCompile source filename symbol) s"
  have e: "user_effect (log (EvExec source) ?s1) (fst (runcode lib source p ?s1))"
    by (rule runcode_state)
  obtain s2 r where rc: "runcode lib source p ?s1 = (s2, r)"
    by (cases "runcode lib source p ?s1")
  show ?thesis using Complete e rc by (cases r) (simp_all add: runsource_def log_def)
next
  case (Raises name)
  then show ?thesis by (simp add: runsource_def log_def user_effect_refl)
qed

lemma runsource_result:
  "snd (runsource lib source filename symbol s) =
     (case compile_command lib source filename symbol of
        Incomplete \<Rightarrow> Returned True
      | Invalid ei \<Rightarrow> Returned False
      | Complete p \<Rightarrow> if ending p = Exit then Propagated SystemExit else Returned False
      | Raises name \<Rightarrow> Propagated (Uncaught name))"
proof (cases "compile_command lib source filename symbol")
  case (Invalid ei)
  let ?s1 = "log (EvCompile source filename symbol) s"
  have t: "tb (in_handler runsource_frame ei) \<noteq> []" by (simp add: in_handler_def)
  obtain s2 where "showtraceback lib (in_handler runsource_frame ei) ?s1 = (s2, Returned ())"
    using showtraceback_effect [OF t, of ?s1 lib]
    by (cases "showtraceback lib (in_handler runsource_frame ei) ?s1") simp
  then show ?thesis using Invalid by (simp add: runsource_def)
next
  case (Complete p)
  let ?s1 = "log (EvCompile source filename symbol) s"
  obtain s2 r where rc: "runcode lib source p ?s1 = (s2, r)"
    by (cases "runcode lib source p ?s1")
  have "r = (if ending p = Exit then Propagated SystemExit else Returned ())"
    using runcode_result [of lib source p ?s1] rc by simp
  then show ?thesis using Complete rc by (simp add: runsource_def)
qed (simp_all add: runsource_def)

subsection \<open>Output of a single string\<close>

lemma write_item_cr:
  "CR \<in> set t \<Longrightarrow>
     display (fst (write_item n (PStr t) (s, tgs))) =
       display (delete_to_end (cursor_position s) s) @ [(NL, [])]
       @ map (\<lambda>c. (c, tag_names (red_tags (after_last_cr t) tgs))) (after_last_cr t)
       @ (if n > 1 then [(TAB, [])] else [])"
  by (simp add: write_item_def collapse_cr_def insert_end_def delete_to_end_def Let_def)

lemma write_finish_text:
  "display_text (write_finish s) = display_text s @ (if strip (display_text s) = [] then [] else [NL])"
  by (simp add: write_finish_def display_text_def collab_defs Let_def)

lemma cr_significant: "CR \<in> set t \<Longrightarrow> \<not> insignificant (PStr t)"
  by (auto simp add: char_defs)

lemma write_finish_display:
  "display (write_finish s) = display s @ (if strip (display_text s) = [] then [] else [(NL, [])])"
  by (simp add: write_finish_def display_text_def collab_defs Let_def)

lemma write_py_plain:
  assumes "\<not> prevent_module_import s" and "CR \<notin> set t" and "\<not> insignificant (PStr t)"
    and "\<exists>c\<in>set t. \<not> is_space c"
  shows "display (write_py [PStr t] tgs s) =
           display s @ map (\<lambda>c. (c, tag_names (red_tags t tgs))) t @ [(NL, [])]"
proof -
  have items: "display (write_items [PStr t] tgs s) = display s @ map (\<lambda>c. (c, tag_names (red_tags t tgs))) t"
    using assms(2) by (simp add: write_items_def write_item_def collapse_cr_def insert_end_def Let_def)
  have "strip (display_text (write_items [PStr t] tgs s)) \<noteq> []"
    using assms(4) by (auto simp add: strip_empty_iff display_text_def items)
  moreover have "write_py [PStr t] tgs s = write_finish (write_items [PStr t] tgs s)"
    using assms(1,3) by (simp add: write_py_def)
  ultimately show ?thesis by (simp add: write_finish_display items)
qed

lemma significant_nonblank:
  assumes "\<not> insignificant (PStr (rstrip t))"
  shows "\<exists>c\<in>set (rstrip t). \<not> is_space c"
proof -
  have "rstrip t \<noteq> []" using assms by auto
  then show ?thesis by (rule rstrip_nonblank)
qed


text \<open>What \<^verbatim>\<open>showtraceback\<close> puts on the display while the suppression flag is inactive.\<close>

lemma showtraceback_display:
  assumes "tb ei \<noteq> []" and "\<not> prevent_module_import s"
    and "CR \<notin> set (traceback_text lib ei)"
    and "\<not> insignificant (PStr (traceback_text lib ei))"
  shows "display (fst (showtraceback lib ei s)) =
           display s
           @ map (\<lambda>c. (c, tag_names (red_tags (traceback_text lib ei) (TagStr ''red''))))
               (traceback_text lib ei)
           @ [(NL, [])]"
proof -
  have nb: "\<exists>c\<in>set (traceback_text lib ei). \<not> is_space c"
    using assms(4) significant_nonblank unfolding traceback_text_def by blast
  have "display (write_py [PStr (traceback_text lib ei)] (TagStr ''red'') (s\<lparr>sys_last := Some ei\<rparr>)) =
           display s
           @ map (\<lambda>c. (c, tag_names (red_tags (traceback_text lib ei) (TagStr ''red''))))
               (traceback_text lib ei)
           @ [(NL, [])]"
    using write_py_plain [of "s\<lparr>sys_last := Some ei\<rparr>" "traceback_text lib ei" "TagStr ''red''"]
      assms(2,3,4) nb by simp
  then show ?thesis using assms(1) by (simp add: showtraceback_def setview_def log_def Let_def)
qed


subsection \<open>One submitted line\<close>

lemma del_shortcut_objects: "objects s' = objects s \<Longrightarrow> del_shortcut source s' = del_shortcut source s"
  by (simp add: del_shortcut_def)

lemma each_prefix_objects:
  "objects s' = objects s \<Longrightarrow>
     each_prefix_incomplete lib filename symbol s' buf ls
       = each_prefix_incomplete lib filename symbol s buf ls"
  by (induction ls arbitrary: buf) (simp_all add: del_shortcut_def)

lemma push_shortcut:
  assumes "del_shortcut (accumulated (buffer s) line) s"
  shows "push lib line filename symbol s =
     (prompt (del_objects (drop 4 (accumulated (buffer s) line))
        (preprocess (accumulated (buffer s) line)
           (synclocals (s\<lparr>cursor_position := last_line_start s\<rparr>)))), Returned ())"
  using assms by (simp add: push_def del_shortcut_def synclocals_def collab_defs Let_def)

text \<open>A line that the deletion shortcut does not take: how the call ends, the buffer, the
  calls on the history and the executions, by the answer of the compiler.\<close>

lemma push_compiled:
  assumes "\<not> del_shortcut (accumulated (buffer s) line) s"
  shows "snd (push lib line filename symbol s) =
           (case compile_command lib (accumulated (buffer s) line) filename symbol of
              Complete p \<Rightarrow> if ending p = Exit then Propagated SystemExit else Returned ()
            | Raises name \<Rightarrow> Propagated (Uncaught name)
            | _ \<Rightarrow> Returned ())"
    and "buffer (fst (push lib line filename symbol s)) =
           (case compile_command lib (accumulated (buffer s) line) filename symbol of
              Incomplete \<Rightarrow> buffer s @ [line @ [NL]]
            | Invalid ei \<Rightarrow> []
            | Complete p \<Rightarrow> if ending p = Exit then buffer s else []
            | Raises name \<Rightarrow> buffer s)"
    and "history (fst (push lib line filename symbol s)) =
           (case compile_command lib (accumulated (buffer s) line) filename symbol of
              Incomplete \<Rightarrow> history s @ [HAppend line]
            | Invalid ei \<Rightarrow> history s @ [HExtend line]
            | Complete p \<Rightarrow> if ending p = Exit then history s else history s @ [HExtend line]
            | Raises name \<Rightarrow> history s)"
    and "filter is_exec (trace (fst (push lib line filename symbol s))) =
           filter is_exec (trace s)
           @ (case compile_command lib (accumulated (buffer s) line) filename symbol of
                Complete p \<Rightarrow> [EvExec (accumulated (buffer s) line)]
              | _ \<Rightarrow> [])"
proof -
  let ?src = "accumulated (buffer s) line"
  let ?c = "compile_command lib ?src filename symbol"
  let ?s3 = "preprocess ?src (synclocals (s\<lparr>cursor_position := last_line_start s\<rparr>))"
  let ?s4 = "if take 4 ?src = ''plot'' then prompt ?s3 else ?s3"
  let ?mid = "?s4\<lparr>trace := trace ?s4 @ compile_steps ?src filename symbol ?c\<rparr>"
  obtain s5 r where rs: "runsource lib ?src filename symbol ?s4 = (s5, r)"
    by (cases "runsource lib ?src filename symbol ?s4")
  have eff: "user_effect ?mid s5"
    using runsource_state [of ?s4 ?src filename symbol lib] rs by simp
  have ret: "r = (case ?c of
        Incomplete \<Rightarrow> Returned True
      | Invalid ei \<Rightarrow> Returned False
      | Complete p \<Rightarrow> if ending p = Exit then Propagated SystemExit else Returned False
      | Raises name \<Rightarrow> Propagated (Uncaught name))"
    using runsource_result [of lib ?src filename symbol ?s4] rs by simp
  have tr: "filter is_exec (trace s5) = filter is_exec (trace ?mid)"
    using eff output_not_exec by (rule user_effect_filter)
  have mid: "filter is_exec (trace ?mid) = filter is_exec (trace s)
      @ (case ?c of Complete p \<Rightarrow> [EvExec ?src] | _ \<Rightarrow> [])"
    by (simp add: collab_defs synclocals_def split: compiled.splits)
  have hs: "history s5 = history s"
    using user_effect_history [OF eff] by (simp add: collab_defs synclocals_def)
  have bs: "buffer s5 = buffer s"
    using user_effect_buffer [OF eff] by (simp add: collab_defs synclocals_def)
  have nd: "\<not> del_shortcut ?src ?s3"
    using assms by (simp add: del_shortcut_def synclocals_def collab_defs)
  have bf: "buffer (synclocals (s\<lparr>cursor_position := last_line_start s\<rparr>)) = buffer s"
    by (simp add: synclocals_def log_def)
  have unfold: "push lib line filename symbol s =
      (case r of
         Propagated x \<Rightarrow> (s5, Propagated x)
       | Returned did_compile \<Rightarrow>
           (prompt (if did_compile
                    then history_append line (s5\<lparr>buffer := buffer s5 @ [line @ [NL]]\<rparr>)
                    else (history_extend line (postprocess ?src s5))\<lparr>buffer := []\<rparr>),
            Returned ()))"
    unfolding push_def Let_def bf using nd rs by (simp split del: if_split split: result.splits)
  show "snd (push lib line filename symbol s) =
           (case ?c of
              Complete p \<Rightarrow> if ending p = Exit then Propagated SystemExit else Returned ()
            | Raises name \<Rightarrow> Propagated (Uncaught name)
            | _ \<Rightarrow> Returned ())"
    by (simp add: unfold ret split: compiled.splits)
  show "buffer (fst (push lib line filename symbol s)) =
           (case ?c of
              Incomplete \<Rightarrow> buffer s @ [line @ [NL]]
            | Invalid ei \<Rightarrow> []
            | Complete p \<Rightarrow> if ending p = Exit then buffer s else []
            | Raises name \<Rightarrow> buffer s)"
    by (simp add: unfold ret bs collab_defs split: compiled.splits)
  show "history (fst (push lib line filename symbol s)) =
           (case ?c of
              Incomplete \<Rightarrow> history s @ [HAppend line]
            | Invalid ei \<Rightarrow> history s @ [HExtend line]
            | Complete p \<Rightarrow> if ending p = Exit then history s else history s @ [HExtend line]
            | Raises name \<Rightarrow> history s)"
    by (simp add: unfold ret hs collab_defs split: compiled.splits)
  show "filter is_exec (trace (fst (push lib line filename symbol s))) =
           filter is_exec (trace s) @ (case ?c of Complete p \<Rightarrow> [EvExec ?src] | _ \<Rightarrow> [])"
    using tr mid by (simp add: unfold ret collab_defs split: compiled.splits)
qed

lemma push_incomplete_objects:
  assumes "\<not> del_shortcut (accumulated (buffer s) line) s"
    and "compile_command lib (accumulated (buffer s) line) filename symbol = Incomplete"
  shows "objects (fst (push lib line filename symbol s)) = objects s"
  using assms
  by (auto simp add: push_def runsource_def del_shortcut_def synclocals_def collab_defs Let_def)

lemma push_lines_incomplete:
  assumes "each_prefix_incomplete lib filename symbol s (buffer s) ls"
  shows "snd (push_lines lib ls filename symbol s) = Returned ()
     \<and> buffer (fst (push_lines lib ls filename symbol s)) = buffer s @ map (\<lambda>l. l @ [NL]) ls
     \<and> history (fst (push_lines lib ls filename symbol s)) = history s @ map HAppend ls
     \<and> objects (fst (push_lines lib ls filename symbol s)) = objects s
     \<and> filter is_exec (trace (fst (push_lines lib ls filename symbol s))) = filter is_exec (trace s)"
  using assms
proof (induction ls arbitrary: s)
  case Nil
  show ?case by simp
next
  case (Cons l ls)
  obtain s1 r1 where p: "push lib l filename symbol s = (s1, r1)"
    by (cases "push lib l filename symbol s")
  have nd: "\<not> del_shortcut (accumulated (buffer s) l) s"
    and inc: "compile_command lib (accumulated (buffer s) l) filename symbol = Incomplete"
    using Cons.prems by simp_all
  have step: "r1 = Returned ()" "buffer s1 = buffer s @ [l @ [NL]]"
      "history s1 = history s @ [HAppend l]"
      "filter is_exec (trace s1) = filter is_exec (trace s)"
    using push_compiled [where lib = lib and filename = filename and symbol = symbol, OF nd] inc p
    by simp_all
  have ob: "objects s1 = objects s"
    using push_incomplete_objects [OF nd inc] p by simp
  have "each_prefix_incomplete lib filename symbol s1 (buffer s1) ls"
    using Cons.prems step(2) each_prefix_objects [OF ob] by simp
  then show ?case using Cons.IH [of s1] p step ob by simp
qed

subsection \<open>The formatter without long runs\<close>

lemma format_stack_short:
  "count \<le> 3 \<Longrightarrow> runs_short prev count frs \<Longrightarrow> format_stack prev count frs = map format_frame frs"
  by (induction prev count frs rule: format_stack.induct) (auto simp add: Let_def split: option.splits)

subsection \<open>Routing of bindings (C1)\<close>

text \<open>
  C1, as amended. Every call of \<^verbatim>\<open>setitem\<close> assigns to at most one registry, never to both.
  With the suppression flag inactive it is exactly one: the module registry for a module, the
  object registry for any other value. With the flag active a module is assigned to neither
  registry, and another value goes to the object registry unless its name has more than one
  character and begins with two underscores, when it too is assigned to neither.
\<close>

theorem setitem_routing:
  "trace (setitem key v s) = trace s @
     (if ismodule v then (if prevent_module_import s then [] else [EvModules key v])
      else (if prevent_module_import s \<and> length key \<noteq> 1 \<and> take 2 key = ''__'' then []
            else [EvObjects key v]))
   \<and> modules (setitem key v s) =
       (if ismodule v \<and> \<not> prevent_module_import s then (modules s)(key \<mapsto> v) else modules s)
   \<and> objects (setitem key v s) =
       (if \<not> ismodule v \<and> (\<not> prevent_module_import s \<or> length key = 1 \<or> take 2 key \<noteq> ''__'')
        then (objects s)(key \<mapsto> v) else objects s)"
  by (simp add: setitem_def set_modules_def set_objects_def log_def)

theorem setitem_routing_witness:
  "trace (setitem ''np'' (PModule ''numpy'') init_state) = [EvModules ''np'' (PModule ''numpy'')]
   \<and> trace (setitem ''x'' (PObj ''1'') init_state) = [EvObjects ''x'' (PObj ''1'')]
   \<and> trace (setitem ''__name__'' (PStr ''__main__'') (init_state\<lparr>prevent_module_import := True\<rparr>)) = []"
  using setitem_routing [of "''np''" "PModule ''numpy''" init_state]
    setitem_routing [of "''x''" "PObj ''1''" init_state]
    setitem_routing [of "''__name__''" "PStr ''__main__''" "init_state\<lparr>prevent_module_import := True\<rparr>"]
  by (simp add: init_state_def)

text \<open>
  The claim as first stated, that no binding is dropped, fails while the flag is active:
  \<^verbatim>\<open>setitem\<close> leaves the interpreter as it was for a module, and a script that is run with
  \<^verbatim>\<open>exec\<close> and imports \<^verbatim>\<open>os\<close> leaves both registries empty although the namespace
  holds the module.
\<close>

theorem setitem_suppressed_module_counterexample:
  "setitem ''os'' (PModule ''os'') (init_state\<lparr>prevent_module_import := True\<rparr>)
     = init_state\<lparr>prevent_module_import := True\<rparr>
   \<and> modules (fst (exec (python (Complete import_os)) ''import os'' ''<file>'' init_state)) = Map.empty
   \<and> objects (fst (exec (python (Complete import_os)) ''import os'' ''<file>'' init_state)) = Map.empty
   \<and> locals_store (fst (exec (python (Complete import_os)) ''import os'' ''<file>'' init_state)) ''os''
       = Some (PModule ''os'')"
  by (simp add: run_defs collab_defs import_os_def init_state_def)

subsection \<open>A complete statement (C2)\<close>

text \<open>
  C2, as amended. A submitted line is added to the input buffer, with a line terminator,
  exactly when its accumulated source is handed to the compiler (the deletion shortcut does
  not take it) and compiles as incomplete; nothing is executed then. When the accumulated
  source is handed to the compiler and compiles as a complete statement, it is executed at
  once, and unless the code ends with \<^verbatim>\<open>SystemExit\<close>, \<^verbatim>\<open>push\<close> returns, the input buffer
  is empty, and the line has been handed once to \<^verbatim>\<open>extend\<close> of the history: the history
  has gained the line as a single entry whenever \<^verbatim>\<open>extend\<close> records a line as one entry.
\<close>

theorem push_complete_statement:
  "(buffer (fst (push lib line filename symbol s)) = buffer s @ [line @ [NL]]
      \<longleftrightarrow> \<not> del_shortcut (accumulated (buffer s) line) s
          \<and> compile_command lib (accumulated (buffer s) line) filename symbol = Incomplete)
   \<and> (\<not> del_shortcut (accumulated (buffer s) line) s
        \<and> compile_command lib (accumulated (buffer s) line) filename symbol = Incomplete
      \<longrightarrow> filter is_exec (trace (fst (push lib line filename symbol s))) = filter is_exec (trace s))
   \<and> (\<not> del_shortcut (accumulated (buffer s) line) s
        \<and> compile_command lib (accumulated (buffer s) line) filename symbol = Complete p
      \<longrightarrow> filter is_exec (trace (fst (push lib line filename symbol s)))
            = filter is_exec (trace s) @ [EvExec (accumulated (buffer s) line)]
          \<and> (ending p \<noteq> Exit
              \<longrightarrow> snd (push lib line filename symbol s) = Returned ()
                  \<and> buffer (fst (push lib line filename symbol s)) = []
                  \<and> history (fst (push lib line filename symbol s)) = history s @ [HExtend line]
                  \<and> (ext line = [line]
                      \<longrightarrow> entries ext (history (fst (push lib line filename symbol s)))
                            = entries ext (history s) @ [line])))"
proof (cases "del_shortcut (accumulated (buffer s) line) s")
  case True
  then show ?thesis by (simp add: push_shortcut collab_defs synclocals_def)
next
  case False
  note pc = push_compiled [where lib = lib and filename = filename and symbol = symbol, OF False]
  show ?thesis
    by (cases "compile_command lib (accumulated (buffer s) line) filename symbol")
       (simp_all add: pc False entries_append)
qed

theorem push_complete_statement_witness:
  "\<not> del_shortcut (accumulated (buffer init_state) ''x=1'') init_state
   \<and> snd (push (python (Complete assign_x)) ''x=1'' ''<input>'' ''single'' init_state) = Returned ()
   \<and> filter is_exec (trace (fst (push (python (Complete assign_x)) ''x=1'' ''<input>'' ''single'' init_state)))
       = [EvExec ''x=1'']
   \<and> buffer (fst (push (python (Complete assign_x)) ''x=1'' ''<input>'' ''single'' init_state)) = []
   \<and> history (fst (push (python (Complete assign_x)) ''x=1'' ''<input>'' ''single'' init_state))
       = [HExtend ''x=1'']
   \<and> entries line_entry (history (fst (push (python (Complete assign_x)) ''x=1'' ''<input>'' ''single'' init_state)))
       = [''x=1'']"
  using push_complete_statement [of "python (Complete assign_x)" "''x=1''" "''<input>''" "''single''"
      init_state assign_x line_entry]
  by (simp add: python_def accumulated_def del_shortcut_def init_state_def assign_x_def line_entry_def)

text \<open>
  The claim as first stated, for every line whose accumulated source compiles as a complete
  statement, fails in two ways. The line \<^verbatim>\<open>del x\<close>, with \<open>x\<close> in the object registry, is a
  complete statement that the deletion shortcut takes: it is not executed and the history is
  not called. A block that ends with \<^verbatim>\<open>exit()\<close> is executed, but \<^verbatim>\<open>SystemExit\<close> leaves
  \<^verbatim>\<open>push\<close> before the buffer is cleared and before the history is called.
\<close>

theorem push_complete_not_executed_counterexample:
  "compile_command (python (Complete no_op)) (accumulated (buffer with_x) ''del x'') ''<input>'' ''single''
     = Complete no_op
   \<and> filter is_exec (trace (fst (push (python (Complete no_op)) ''del x'' ''<input>'' ''single'' with_x))) = []
   \<and> history (fst (push (python (Complete no_op)) ''del x'' ''<input>'' ''single'' with_x)) = []
   \<and> compile_command python_if (accumulated (buffer exit_block) []) ''<input>'' ''single''
     = Complete exit_now
   \<and> snd (push python_if [] ''<input>'' ''single'' exit_block) = Propagated SystemExit
   \<and> buffer (fst (push python_if [] ''<input>'' ''single'' exit_block))
       = [''if True:'' @ [NL], ''    exit()'' @ [NL]]
   \<and> history (fst (push python_if [] ''<input>'' ''single'' exit_block)) = []"
  by (simp add: run_defs collab_defs with_x_def exit_block_def python_if_def compile_if_def
      exit_now_def init_state_def char_defs)

subsection \<open>Exceptions of user code (C3)\<close>




subsection \<open>The steps of \<^verbatim>\<open>exec\<close> (C4)\<close>

text \<open>
  C4, as amended. \<^verbatim>\<open>exec\<close> sets the suppression flag, synchronises the namespace, calls the
  pre-processing hook with the raw source, and has the block compiled and, when it compiles,
  executed. When no exception leaves this step, that is when the compiler raises none that
  \<^verbatim>\<open>runsource\<close> does not catch and the code does not end with \<^verbatim>\<open>SystemExit\<close> (every other
  exception of the code is caught), \<^verbatim>\<open>exec\<close> goes on to call the post-processing hook with
  the raw source and to clear the flag, in this order, and returns with the flag false. When
  an exception leaves the step, it leaves \<^verbatim>\<open>exec\<close> as well: the last two steps are not
  performed, and the flag is still set.
\<close>

theorem exec_steps:
  "filter run_step (trace (fst (exec lib source filename s))) =
     filter run_step (trace s)
     @ [EvFlag True, EvSync, EvPreprocess source]
     @ compile_steps source filename ''exec'' (compile_command lib source filename ''exec'')
     @ (if escapes (compile_command lib source filename ''exec'') then []
        else [EvPostprocess source, EvFlag False])
   \<and> (\<not> escapes (compile_command lib source filename ''exec'')
        \<longrightarrow> snd (exec lib source filename s) = Returned ()
            \<and> \<not> prevent_module_import (fst (exec lib source filename s)))
   \<and> (escapes (compile_command lib source filename ''exec'')
        \<longrightarrow> snd (exec lib source filename s) \<noteq> Returned ()
            \<and> prevent_module_import (fst (exec lib source filename s)))"
proof -
  let ?c = "compile_command lib source filename ''exec''"
  let ?s3 = "preprocess source (synclocals (set_flag True s))"
  let ?mid = "?s3\<lparr>trace := trace ?s3 @ compile_steps source filename ''exec'' ?c\<rparr>"
  obtain s4 r where rs: "runsource lib source filename ''exec'' ?s3 = (s4, r)"
    by (cases "runsource lib source filename ''exec'' ?s3")
  have eff: "user_effect ?mid s4"
    using runsource_state [of ?s3 source filename "''exec''" lib] rs by simp
  have ret: "r = (case ?c of
        Incomplete \<Rightarrow> Returned True
      | Invalid ei \<Rightarrow> Returned False
      | Complete p \<Rightarrow> if ending p = Exit then Propagated SystemExit else Returned False
      | Raises name \<Rightarrow> Propagated (Uncaught name))"
    using runsource_result [of lib source filename "''exec''" ?s3] rs by simp
  have tr: "filter run_step (trace s4) = filter run_step (trace ?mid)"
    using eff output_not_run_step by (rule user_effect_filter)
  have steps: "filter run_step (compile_steps source filename ''exec'' ?c)
      = compile_steps source filename ''exec'' ?c"
    by (cases ?c) simp_all
  have mid: "filter run_step (trace ?mid) = filter run_step (trace s)
      @ [EvFlag True, EvSync, EvPreprocess source] @ compile_steps source filename ''exec'' ?c"
    by (simp add: collab_defs synclocals_def steps)
  have flag: "prevent_module_import s4"
    using user_effect_flag [OF eff] by (simp add: collab_defs synclocals_def)
  have ex: "exec lib source filename s =
      (case r of Propagated x \<Rightarrow> (s4, Propagated x)
       | Returned b \<Rightarrow> (set_flag False (postprocess source s4), Returned ()))"
    using rs by (simp add: exec_def split: result.splits)
  show ?thesis
    using tr mid flag by (cases ?c) (simp_all add: ex ret collab_defs)
qed

theorem exec_steps_witness:
  "\<not> escapes (compile_command (python (Complete divide_by_zero)) ''1/0'' ''<file>'' ''exec'')
   \<and> snd (exec (python (Complete divide_by_zero)) ''1/0'' ''<file>'' init_state) = Returned ()
   \<and> \<not> prevent_module_import (fst (exec (python (Complete divide_by_zero)) ''1/0'' ''<file>'' init_state))
   \<and> filter run_step (trace (fst (exec (python (Complete divide_by_zero)) ''1/0'' ''<file>'' init_state)))
       = [EvFlag True, EvSync, EvPreprocess ''1/0'', EvCompile ''1/0'' ''<file>'' ''exec'', EvExec ''1/0'',
          EvPostprocess ''1/0'', EvFlag False]
   \<and> escapes (compile_command (python (Complete exit_now)) ''exit()'' ''<file>'' ''exec'')
   \<and> filter run_step (trace (fst (exec (python (Complete exit_now)) ''exit()'' ''<file>'' init_state)))
       = [EvFlag True, EvSync, EvPreprocess ''exit()'', EvCompile ''exit()'' ''<file>'' ''exec'',
          EvExec ''exit()'']
   \<and> prevent_module_import (fst (exec (python (Complete exit_now)) ''exit()'' ''<file>'' init_state))"
  using exec_steps [of "python (Complete divide_by_zero)" "''1/0''" "''<file>''" init_state]
    exec_steps [of "python (Complete exit_now)" "''exit()''" "''<file>''" init_state]
  by (simp add: python_def divide_by_zero_def exit_now_def init_state_def)

text \<open>
  The claim as first stated, that the flag is false after every call that terminates, fails:
  a script that raises \<^verbatim>\<open>SystemExit\<close>, and a source on which the compiler raises
  \<^verbatim>\<open>RecursionError\<close>, both leave \<^verbatim>\<open>exec\<close> with the flag set.
\<close>

theorem exec_flag_left_set_counterexample:
  "snd (exec (python (Complete exit_now)) ''raise SystemExit'' ''<file>'' init_state)
      = Propagated SystemExit
   \<and> prevent_module_import
       (fst (exec (python (Complete exit_now)) ''raise SystemExit'' ''<file>'' init_state))
   \<and> snd (exec (python (Raises ''RecursionError'')) ''1+1+1'' ''<file>'' init_state)
      = Propagated (Uncaught ''RecursionError'')
   \<and> prevent_module_import
       (fst (exec (python (Raises ''RecursionError'')) ''1+1+1'' ''<file>'' init_state))"
  by (simp add: run_defs collab_defs exit_now_def init_state_def)

subsection \<open>A statement of several lines (C5)\<close>

text \<open>
  C5, as amended. Let the lines \<open>ls\<close> be submitted one after the other, each handed to the
  compiler (the deletion shortcut does not take it) and compiling as incomplete together with
  the lines before it, and let the next line \<open>final\<close> be handed to the compiler and make the
  accumulated source a complete statement. Then every line of \<open>ls\<close> is buffered with a line
  terminator and nothing is executed; the submission of \<open>final\<close> causes exactly one
  execution, of the buffered lines followed by \<open>final\<close>; and unless the executed code ends
  with \<^verbatim>\<open>SystemExit\<close>, \<^verbatim>\<open>push\<close> returns and the input buffer is empty. When the code ends
  with \<^verbatim>\<open>SystemExit\<close>, the exception leaves \<^verbatim>\<open>push\<close> and the lines stay in the buffer.
\<close>

theorem push_multiline:
  assumes "each_prefix_incomplete lib filename symbol s (buffer s) ls"
    and "\<not> del_shortcut (accumulated (buffer s @ map (\<lambda>l. l @ [NL]) ls) final) s"
    and "compile_command lib (accumulated (buffer s @ map (\<lambda>l. l @ [NL]) ls) final) filename symbol
           = Complete p"
  shows "snd (push_lines lib ls filename symbol s) = Returned ()
     \<and> buffer (fst (push_lines lib ls filename symbol s)) = buffer s @ map (\<lambda>l. l @ [NL]) ls
     \<and> filter is_exec (trace (fst (push_lines lib ls filename symbol s))) = filter is_exec (trace s)
     \<and> filter is_exec
          (trace (fst (push lib final filename symbol (fst (push_lines lib ls filename symbol s)))))
         = filter is_exec (trace s) @ [EvExec (accumulated (buffer s @ map (\<lambda>l. l @ [NL]) ls) final)]
     \<and> (ending p \<noteq> Exit
          \<longrightarrow> snd (push lib final filename symbol (fst (push_lines lib ls filename symbol s)))
                = Returned ()
              \<and> buffer (fst (push lib final filename symbol (fst (push_lines lib ls filename symbol s))))
                = [])
     \<and> (ending p = Exit
          \<longrightarrow> snd (push lib final filename symbol (fst (push_lines lib ls filename symbol s)))
                = Propagated SystemExit
              \<and> buffer (fst (push lib final filename symbol (fst (push_lines lib ls filename symbol s))))
                = buffer s @ map (\<lambda>l. l @ [NL]) ls)"
proof -
  let ?s1 = "fst (push_lines lib ls filename symbol s)"
  have a: "snd (push_lines lib ls filename symbol s) = Returned ()"
      "buffer ?s1 = buffer s @ map (\<lambda>l. l @ [NL]) ls"
      "objects ?s1 = objects s"
      "filter is_exec (trace ?s1) = filter is_exec (trace s)"
    using push_lines_incomplete [OF assms(1)] by simp_all
  have nd: "\<not> del_shortcut (accumulated (buffer ?s1) final) ?s1"
    using assms(2) a(2) del_shortcut_objects [OF a(3)] by simp
  note pc = push_compiled [where lib = lib and filename = filename and symbol = symbol, OF nd]
  show ?thesis using pc a assms(3) by simp
qed

theorem push_multiline_witness:
  "each_prefix_incomplete python_if ''<input>'' ''single'' init_state (buffer init_state)
     [''if True:'', ''    x = 1'']
   \<and> buffer (fst (push_lines python_if [''if True:'', ''    x = 1''] ''<input>'' ''single'' init_state))
       = [''if True:'' @ [NL], ''    x = 1'' @ [NL]]
   \<and> filter is_exec (trace (fst (push_lines python_if [''if True:'', ''    x = 1''] ''<input>'' ''single'' init_state)))
       = []
   \<and> snd (push python_if [] ''<input>'' ''single''
        (fst (push_lines python_if [''if True:'', ''    x = 1''] ''<input>'' ''single'' init_state)))
       = Returned ()
   \<and> buffer (fst (push python_if [] ''<input>'' ''single''
        (fst (push_lines python_if [''if True:'', ''    x = 1''] ''<input>'' ''single'' init_state)))) = []
   \<and> filter is_exec (trace (fst (push python_if [] ''<input>'' ''single''
        (fst (push_lines python_if [''if True:'', ''    x = 1''] ''<input>'' ''single'' init_state)))))
       = [EvExec (''if True:'' @ [NL] @ ''    x = 1'' @ [NL])]"
  using push_multiline [of python_if "''<input>''" "''single''" init_state "[''if True:'', ''    x = 1'']"
      "[]" assign_x]
  by (simp add: python_if_def compile_if_def accumulated_def del_shortcut_def init_state_def
      assign_x_def char_defs)

text \<open>
  The claim as first stated fails in two ways. After the block \<^verbatim>\<open>if True:\<close>,
  \<^verbatim>\<open>    exit()\<close> has been closed by a blank line and executed, the input buffer still holds
  its two lines. And the line \<^verbatim>\<open>del(x\<close>, the first line of a statement that goes on in the
  next line, compiles as incomplete, but with \<open>x\<close> in the object registry the deletion
  shortcut takes it: the line is not buffered, and \<open>x\<close> is removed.
\<close>

theorem push_multiline_counterexample:
  "compile_command python_if (accumulated [] ''if True:'') ''<input>'' ''single'' = Incomplete
   \<and> compile_command python_if (accumulated [''if True:'' @ [NL]] ''    exit()'') ''<input>'' ''single''
       = Incomplete
   \<and> buffer (fst (push_lines python_if [''if True:'', ''    exit()''] ''<input>'' ''single'' init_state))
       = [''if True:'' @ [NL], ''    exit()'' @ [NL]]
   \<and> compile_command python_if (accumulated [''if True:'' @ [NL], ''    exit()'' @ [NL]] [])
         ''<input>'' ''single''
       = Complete exit_now
   \<and> snd (push python_if [] ''<input>'' ''single''
        (fst (push_lines python_if [''if True:'', ''    exit()''] ''<input>'' ''single'' init_state)))
       = Propagated SystemExit
   \<and> buffer (fst (push python_if [] ''<input>'' ''single''
        (fst (push_lines python_if [''if True:'', ''    exit()''] ''<input>'' ''single'' init_state))))
       = [''if True:'' @ [NL], ''    exit()'' @ [NL]]
   \<and> compile_command python_if (accumulated (buffer with_x) ''del(x'') ''<input>'' ''single''
       = Incomplete
   \<and> buffer (fst (push python_if ''del(x'' ''<input>'' ''single'' with_x)) = []
   \<and> objects (fst (push python_if ''del(x'' ''<input>'' ''single'' with_x)) = Map.empty"
  by (simp add: run_defs collab_defs python_if_def compile_if_def exit_now_def with_x_def
      init_state_def char_defs)

subsection \<open>The deletion shortcut (C6)\<close>

text \<open>
  C6, as amended. When the accumulated source, that is the buffered lines followed by the
  submitted line, is \<^verbatim>\<open>del\<close>, one more character and a key \<open>x\<close> of the object registry
  (so for the line \<^verbatim>\<open>del x\<close> submitted while the input buffer is empty), \<^verbatim>\<open>push\<close> returns
  without raising, \<open>x\<close> is removed from the object registry, and the only calls made are the
  synchronisation, the pre-processing hook, the removal and the prompt: nothing is compiled or
  executed.
\<close>

theorem push_del_shortcut:
  "accumulated (buffer s) line = ''del'' @ [c] @ x \<Longrightarrow> x \<in> dom (objects s) \<Longrightarrow>
     snd (push lib line filename symbol s) = Returned ()
     \<and> objects (fst (push lib line filename symbol s)) = (objects s)(x := None)
     \<and> trace (fst (push lib line filename symbol s))
         = trace s @ [EvSync, EvPreprocess (''del'' @ [c] @ x), EvDelObjects x, EvPrompt]"
  by (simp add: push_def del_shortcut_def synclocals_def collab_defs Let_def)

theorem push_del_shortcut_witness:
  "accumulated (buffer with_x) ''del x'' = ''del'' @ [CHR '' ''] @ ''x''
   \<and> ''x'' \<in> dom (objects with_x)
   \<and> snd (push (python (Complete no_op)) ''del x'' ''<input>'' ''single'' with_x) = Returned ()
   \<and> objects (fst (push (python (Complete no_op)) ''del x'' ''<input>'' ''single'' with_x)) = Map.empty
   \<and> trace (fst (push (python (Complete no_op)) ''del x'' ''<input>'' ''single'' with_x))
       = [EvSync, EvPreprocess ''del x'', EvDelObjects ''x'', EvPrompt]"
  using push_del_shortcut [of with_x "''del x''" "CHR '' ''" "''x''" "python (Complete no_op)"
      "''<input>''" "''single''"]
  by (simp add: with_x_def init_state_def accumulated_def)

text \<open>
  The claim as first stated, for every submitted line of that form, fails while lines are
  buffered: after \<^verbatim>\<open>if a:\<close> the line \<^verbatim>\<open>del x\<close> is handed to the compiler with the
  buffered line before it, and \<open>x\<close> stays in the registry.
\<close>

theorem push_del_accumulating_counterexample:
  "''x'' \<in> dom (objects accumulating)
   \<and> objects (fst (push (python (Invalid syntax_error)) ''del x'' ''<input>'' ''single'' accumulating)) ''x''
        = Some (PObj ''1'')
   \<and> EvCompile (''if a:'' @ [NL] @ ''del x'') ''<input>'' ''single''
        \<in> set (trace (fst (push (python (Invalid syntax_error)) ''del x'' ''<input>'' ''single'' accumulating)))"
  by (simp add: run_defs collab_defs eval_defs char_defs accumulating_def with_x_def syntax_error_def
      init_state_def)

subsection \<open>Suppressed output (C7)\<close>

text \<open>
  C7. \<^verbatim>\<open>write\<close> returns the interpreter as it was, the display buffer with it, for every
  call made while the suppression flag is active, and for every call with a single item that
  is an array without a non-zero element (all zero, or empty), the bell character, the
  newline, a single space, the empty string, or \<^verbatim>\<open>None\<close>.
\<close>

theorem write_noop:
  "(prevent_module_import s \<longrightarrow> write_py args tgs s = s) \<and>
   ((\<forall>x\<in>set xs. x = 0) \<longrightarrow> write_py [PArray xs t] tgs s = s) \<and>
   (v \<in> {PStr [BEL], PStr [NL], PStr '' '', PStr [], PNone} \<longrightarrow> write_py [v] tgs s = s)"
  by (auto simp add: write_py_def array_any_def list_ex_iff)

theorem write_noop_witness:
  "prevent_module_import (init_state\<lparr>prevent_module_import := True\<rparr>)
   \<and> write_py [PStr ''hello'', PObj ''3''] (TagTuple []) (init_state\<lparr>prevent_module_import := True\<rparr>)
       = init_state\<lparr>prevent_module_import := True\<rparr>
   \<and> write_py [PArray [0, 0, 0] ''[0 0 0]''] (TagTuple []) init_state = init_state
   \<and> write_py [PArray [] ''[]''] (TagTuple []) init_state = init_state
   \<and> write_py [PStr [NL]] (TagTuple []) init_state = init_state
   \<and> write_py [PNone] (TagTuple []) init_state = init_state"
  using write_noop [of "init_state\<lparr>prevent_module_import := True\<rparr>" "[PStr ''hello'', PObj ''3'']" "TagTuple []" "[0, 0, 0]" "''[0 0 0]''" "PStr [NL]"]
    write_noop [of init_state "[]" "TagTuple []" "[0, 0, 0]" "''[0 0 0]''" "PStr [NL]"]
    write_noop [of init_state "[]" "TagTuple []" "[]" "''[]''" "PNone"]
  by simp

subsection \<open>Carriage returns (C8)\<close>

text \<open>
  C8, as amended. A string with a carriage return ends with the text after its last carriage
  return, which has none. When the loop of \<^verbatim>\<open>write\<close> reaches such a string, the widget
  deletes from the recorded cursor position to the end, a newline is inserted, and the text
  after the last carriage return is written (followed by a tab when the call has several
  items). For a call with this one item made while the suppression flag is inactive, the
  display then reads: what the deletion left, a newline, the text after the last carriage
  return, and the closing newline of every write that leaves the display non-blank. In
  particular, when the recorded cursor position is the start of a line of the display other
  than the first, the display reads: its text before the recorded position, then only the
  text after the last carriage return, and the closing newline.
\<close>

theorem write_carriage_return:
  assumes "CR \<in> set t"
  shows "(\<exists>pre. t = pre @ [CR] @ after_last_cr t) \<and> CR \<notin> set (after_last_cr t)
     \<and> display (fst (write_item n (PStr t) (s, tgs))) =
         display (delete_to_end (cursor_position s) s) @ [(NL, [])]
         @ map (\<lambda>c. (c, tag_names (red_tags (after_last_cr t) tgs))) (after_last_cr t)
         @ (if n > 1 then [(TAB, [])] else [])
     \<and> (\<not> prevent_module_import s \<longrightarrow>
          display_text (write_py [PStr t] tgs s) =
            display_text (delete_to_end (cursor_position s) s) @ [NL] @ after_last_cr t
            @ (if strip (display_text (delete_to_end (cursor_position s) s) @ [NL] @ after_last_cr t) = []
               then [] else [NL]))
     \<and> (\<not> prevent_module_import s \<and> cursor_position s = (Suc (Suc k), 0)
          \<and> Suc k < count_lines (display_text s) \<longrightarrow>
          display_text (write_py [PStr t] tgs s) =
            take (offset_of (display_text s) (cursor_position s)) (display_text s) @ after_last_cr t
            @ (if strip (take (offset_of (display_text s) (cursor_position s)) (display_text s)
                         @ after_last_cr t) = []
               then [] else [NL]))"
proof -
  let ?cut = "display_text (delete_to_end (cursor_position s) s)"
  have whole: "display_text (write_py [PStr t] tgs s) =
            ?cut @ [NL] @ after_last_cr t
            @ (if strip (?cut @ [NL] @ after_last_cr t) = [] then [] else [NL])"
    if "\<not> prevent_module_import s"
  proof -
    have items: "display_text (write_items [PStr t] tgs s) = ?cut @ [NL] @ after_last_cr t"
      using write_item_cr [OF assms, of 1 s tgs]
      by (simp add: write_items_def display_text_def comp_def)
    have "write_py [PStr t] tgs s = write_finish (write_items [PStr t] tgs s)"
      using that cr_significant [OF assms] by (simp add: write_py_def)
    then show ?thesis by (simp add: write_finish_text items)
  qed
  have later: "?cut @ [NL] = take (offset_of (display_text s) (cursor_position s)) (display_text s)"
    if "cursor_position s = (Suc (Suc k), 0)" and "Suc k < count_lines (display_text s)"
    using delete_from_later_line [OF that(2)] that(1)
    by (simp add: delete_to_end_def display_text_def take_map)
  have particular: "display_text (write_py [PStr t] tgs s) =
            take (offset_of (display_text s) (cursor_position s)) (display_text s) @ after_last_cr t
            @ (if strip (take (offset_of (display_text s) (cursor_position s)) (display_text s)
                         @ after_last_cr t) = []
               then [] else [NL])"
    if "\<not> prevent_module_import s" and "cursor_position s = (Suc (Suc k), 0)"
      and "Suc k < count_lines (display_text s)"
    using whole [OF that(1)] later [OF that(2,3), symmetric] by simp
  show ?thesis
    using after_last_cr_split [OF assms] after_last_cr_free [of t] write_item_cr [OF assms, of n s tgs]
      whole particular
    by blast
qed

theorem write_carriage_return_witness:
  "CR \<in> set (''abc'' @ [CR] @ ''def'')
   \<and> after_last_cr (''abc'' @ [CR] @ ''def'') = ''def''
   \<and> \<not> prevent_module_import progress_state
   \<and> display_text progress_state = ''>>> run()'' @ [NL] @ ''10%''
   \<and> cursor_position progress_state = (2, 0)
   \<and> take (offset_of (display_text progress_state) (cursor_position progress_state))
        (display_text progress_state) = ''>>> run()'' @ [NL]
   \<and> display_text (write_py [PStr (''abc'' @ [CR] @ ''def'')] (TagTuple []) progress_state)
       = ''>>> run()'' @ [NL] @ ''def'' @ [NL]"
  using write_carriage_return [of "''abc'' @ [CR] @ ''def''" 1 progress_state "TagTuple []" 0]
  by (simp add: progress_state_def init_state_def display_text_def count_lines_def offset_of_def
      delete_to_end_def delete_from_def after_last_cr_def strip_def rstrip_def is_space_def char_defs
      comp_def Let_def numeral_2_eq_2)

text \<open>
  The claim as first stated, for every such item passed to \<^verbatim>\<open>write\<close> and every recorded
  position, fails in two ways. While the suppression flag is active the call returns at once
  and the display keeps the progress text. And on the empty display of a new interpreter,
  where \<^verbatim>\<open>push\<close> records the start of the first line, the deletion removes nothing, so
  that an empty line comes before \<^verbatim>\<open>def\<close>.
\<close>

theorem write_cr_counterexample:
  "display_text (write_py [PStr (''abc'' @ [CR] @ ''def'')] (TagTuple [])
                   (progress_state\<lparr>prevent_module_import := True\<rparr>))
     = ''>>> run()'' @ [NL] @ ''10%''
   \<and> cursor_position (fst (push (python (Complete print_progress)) ''show()'' ''<input>'' ''single''
        init_state)) = (1, 0)
   \<and> display_text (fst (push (python (Complete print_progress)) ''show()'' ''<input>'' ''single''
        init_state)) = [NL] @ ''def'' @ [NL]"
  by (simp add: run_defs collab_defs eval_defs char_defs print_progress_def progress_state_def
      init_state_def comp_def)

subsection \<open>The traceback without the dispatch frame (C9)\<close>

text \<open>
  C9, as amended. Let an exception reach \<^verbatim>\<open>showtraceback\<close> while the suppression flag is
  inactive, its traceback being the dispatch frame \<open>d\<close> followed by the user frames \<open>us\<close>.
  Then the call returns and the display gains, tagged \<^verbatim>\<open>red\<close> and followed by a newline, the
  text that the formatter of the library gives for the exception and the frames \<open>us\<close> alone,
  in their order, with trailing white space removed; the frame \<open>d\<close> is not handed to the
  formatter. This is for a formatted text without a carriage return that is not one of the
  literals that \<^verbatim>\<open>write\<close> skips. With the formatter \<open>format_exception_py\<close> the text is the
  header, one entry for each frame of \<open>us\<close>, in order, and the line of the exception, when
  \<open>us\<close> is not empty and no more than three frames in a row are at the same file, line and
  function.
\<close>

theorem showtraceback_rendered:
  assumes "tb ei = d # us"
    and "\<not> prevent_module_import s"
    and "CR \<notin> set (rstrip (concat (format_exception lib (etype ei) (evalue ei) us)))"
    and "\<not> insignificant (PStr (rstrip (concat (format_exception lib (etype ei) (evalue ei) us))))"
  shows "snd (showtraceback lib ei s) = Returned ()
     \<and> display (fst (showtraceback lib ei s)) =
         display s
         @ map (\<lambda>c. (c, tag_names (red_tags
                  (rstrip (concat (format_exception lib (etype ei) (evalue ei) us)))
                  (TagStr ''red''))))
             (rstrip (concat (format_exception lib (etype ei) (evalue ei) us)))
         @ [(NL, [])]
     \<and> display_text (fst (showtraceback lib ei s)) =
         display_text s @ rstrip (concat (format_exception lib (etype ei) (evalue ei) us)) @ [NL]
     \<and> (format_exception lib = format_exception_py \<and> us \<noteq> [] \<and> runs_short None 0 us \<longrightarrow>
          concat (format_exception lib (etype ei) (evalue ei) us) =
            traceback_header @ concat (map format_frame us)
            @ format_exception_only (etype ei) (evalue ei))"
proof -
  have tx: "traceback_text lib ei = rstrip (concat (format_exception lib (etype ei) (evalue ei) us))"
    using assms(1) by (simp add: traceback_text_def)
  have t: "tb ei \<noteq> []" using assms(1) by simp
  have d: "display (fst (showtraceback lib ei s)) =
      display s
      @ map (\<lambda>c. (c, tag_names (red_tags (traceback_text lib ei) (TagStr ''red''))))
          (traceback_text lib ei)
      @ [(NL, [])]"
    using t assms(2,3,4) by (intro showtraceback_display) (simp_all add: tx)
  have r: "snd (showtraceback lib ei s) = Returned ()"
    using t by (simp add: showtraceback_def Let_def)
  have f: "concat (format_exception_py (etype ei) (evalue ei) us) =
      traceback_header @ concat (map format_frame us) @ format_exception_only (etype ei) (evalue ei)"
    if "us \<noteq> []" and "runs_short None 0 us"
    using that format_stack_short [of 0 None us] by (simp add: format_exception_py_def)
  show ?thesis
    using d r f by (simp add: tx display_text_def comp_def)
qed

theorem showtraceback_rendered_witness:
  "tb (in_handler runcode_frame zero_division) = runcode_frame # [user_frame]
   \<and> \<not> prevent_module_import init_state
   \<and> runs_short None 0 [user_frame]
   \<and> snd (showtraceback (python Incomplete) (in_handler runcode_frame zero_division) init_state)
       = Returned ()
   \<and> display_text (fst (showtraceback (python Incomplete) (in_handler runcode_frame zero_division)
        init_state)) =
       ''Traceback (most recent call last):'' @ [NL]
       @ ''  File '' @ [DQ] @ ''<file>'' @ [DQ] @ '', line 1, in <module>'' @ [NL]
       @ ''ZeroDivisionError: division by zero'' @ [NL]
   \<and> concat (format_exception (python Incomplete) ''ZeroDivisionError'' ''division by zero''
        [user_frame]) =
       traceback_header @ format_frame user_frame
       @ format_exception_only ''ZeroDivisionError'' ''division by zero''"
  using showtraceback_rendered [of "in_handler runcode_frame zero_division" runcode_frame
      "[user_frame]" init_state "python Incomplete"]
  by (simp add: in_handler_def zero_division_def user_frame_def init_state_def python_def
      display_text_def eval_defs char_defs Let_def)

text \<open>
  The claim as first stated, that all user frames are rendered for every exception that
  reaches \<^verbatim>\<open>showtraceback\<close>, fails. For the function that calls itself five times the
  traceback has seven user frames, and the rendered text has five entries: the formatter
  cuts the run of five frames after the third and counts the other two in one line. While the
  suppression flag is active nothing is rendered. And of a text with a carriage return only
  the part after it is rendered.
\<close>

theorem showtraceback_rendered_counterexample:
  "length (tl (tb (in_handler runcode_frame boom))) = 7
   \<and> \<not> prevent_module_import init_state
   \<and> display_text (fst (showtraceback (python Incomplete) (in_handler runcode_frame boom) init_state))
       = ''Traceback (most recent call last):'' @ [NL]
       @ ''  File '' @ [DQ] @ ''<input>'' @ [DQ] @ '', line 1, in <module>'' @ [NL]
       @ ''  File '' @ [DQ] @ ''<input>'' @ [DQ] @ '', line 3, in f'' @ [NL]
       @ ''  File '' @ [DQ] @ ''<input>'' @ [DQ] @ '', line 3, in f'' @ [NL]
       @ ''  File '' @ [DQ] @ ''<input>'' @ [DQ] @ '', line 3, in f'' @ [NL]
       @ ''  [Previous line repeated 2 more times]'' @ [NL]
       @ ''  File '' @ [DQ] @ ''<input>'' @ [DQ] @ '', line 2, in f'' @ [NL]
       @ ''ValueError: boom'' @ [NL]
   \<and> display_text (fst (push (python (Complete recursive_boom)) ''f(5)'' ''<input>'' ''single''
        init_state))
       = display_text (fst (showtraceback (python Incomplete) (in_handler runcode_frame boom)
           init_state))
   \<and> display (fst (showtraceback (python Incomplete) (in_handler runcode_frame zero_division)
        (init_state\<lparr>prevent_module_import := True\<rparr>))) = []
   \<and> display_text (fst (showtraceback (python Incomplete) (in_handler runcode_frame carriage_error)
        init_state)) = [NL] @ ''b'' @ [NL]"
  by code_simp

subsection \<open>The history and the deletion shortcut (C10)\<close>

text \<open>
  C10, as amended. When the deletion shortcut fires, \<^verbatim>\<open>push\<close> returns without a call on
  the history and leaves the input buffer as it was. The other submissions that never reach
  the history are those that an exception leaves: the code ends with \<^verbatim>\<open>SystemExit\<close>, or
  the compiler raises an exception that \<^verbatim>\<open>runsource\<close> does not catch. For every other
  submission \<^verbatim>\<open>push\<close> returns after handing the submitted line to the history, to
  \<^verbatim>\<open>append\<close> when the source is incomplete and to \<^verbatim>\<open>extend\<close> otherwise.
\<close>

theorem push_history_calls:
  "(del_shortcut (accumulated (buffer s) line) s \<longrightarrow>
      snd (push lib line filename symbol s) = Returned ()
      \<and> history (fst (push lib line filename symbol s)) = history s
      \<and> buffer (fst (push lib line filename symbol s)) = buffer s)
   \<and> (history (fst (push lib line filename symbol s)) = history s \<longleftrightarrow>
        del_shortcut (accumulated (buffer s) line) s
        \<or> escapes (compile_command lib (accumulated (buffer s) line) filename symbol))
   \<and> (\<not> del_shortcut (accumulated (buffer s) line) s
        \<and> \<not> escapes (compile_command lib (accumulated (buffer s) line) filename symbol) \<longrightarrow>
        snd (push lib line filename symbol s) = Returned ()
        \<and> history (fst (push lib line filename symbol s)) = history s @
            [if compile_command lib (accumulated (buffer s) line) filename symbol = Incomplete
             then HAppend line else HExtend line])
   \<and> (escapes (compile_command lib (accumulated (buffer s) line) filename symbol)
        \<and> \<not> del_shortcut (accumulated (buffer s) line) s \<longrightarrow>
        snd (push lib line filename symbol s) \<noteq> Returned ())"
proof (cases "del_shortcut (accumulated (buffer s) line) s")
  case True
  then show ?thesis by (simp add: push_shortcut collab_defs synclocals_def)
next
  case False
  note pc = push_compiled [where lib = lib and filename = filename and symbol = symbol, OF False]
  show ?thesis
    by (cases "compile_command lib (accumulated (buffer s) line) filename symbol")
       (simp_all add: pc False)
qed

theorem push_history_calls_witness:
  "del_shortcut (accumulated (buffer with_x) ''del x'') with_x
   \<and> snd (push (python (Complete no_op)) ''del x'' ''<input>'' ''single'' with_x) = Returned ()
   \<and> history (fst (push (python (Complete no_op)) ''del x'' ''<input>'' ''single'' with_x)) = []
   \<and> buffer (fst (push (python (Complete no_op)) ''del x'' ''<input>'' ''single'' with_x)) = []
   \<and> \<not> del_shortcut (accumulated (buffer init_state) ''x=1'') init_state
   \<and> \<not> escapes (compile_command (python (Complete assign_x)) (accumulated (buffer init_state) ''x=1'')
          ''<input>'' ''single'')
   \<and> history (fst (push (python (Complete assign_x)) ''x=1'' ''<input>'' ''single'' init_state))
       = [HExtend ''x=1'']
   \<and> history (fst (push python_if ''if True:'' ''<input>'' ''single'' init_state))
       = [HAppend ''if True:'']"
  using push_history_calls [of with_x "''del x''" "python (Complete no_op)" "''<input>''" "''single''"]
    push_history_calls [of init_state "''x=1''" "python (Complete assign_x)" "''<input>''" "''single''"]
    push_history_calls [of init_state "''if True:''" python_if "''<input>''" "''single''"]
  by (simp add: python_def python_if_def compile_if_def accumulated_def del_shortcut_def with_x_def
      init_state_def assign_x_def)

text \<open>
  The claim as first stated, that a submission taken by the deletion shortcut is the only
  kind that never appears in the history, fails: the line \<^verbatim>\<open>exit()\<close> is handed to the
  compiler and executed, \<^verbatim>\<open>SystemExit\<close> leaves \<^verbatim>\<open>push\<close>, and no call has been made on the
  history.
\<close>

theorem push_exit_history_counterexample:
  "\<not> del_shortcut (accumulated (buffer init_state) ''exit()'') init_state
   \<and> snd (push (python (Complete exit_now)) ''exit()'' ''<input>'' ''single'' init_state)
       = Propagated SystemExit
   \<and> history (fst (push (python (Complete exit_now)) ''exit()'' ''<input>'' ''single'' init_state)) = []
   \<and> entries line_entry
        (history (fst (push (python (Complete exit_now)) ''exit()'' ''<input>'' ''single'' init_state)))
       = []"
  by (simp add: run_defs collab_defs exit_now_def init_state_def)

end
